theory Spec2Isabelle
  imports Complex_Main
begin

unbundle bit_operations_syntax

section \<open>Vectors of the scene graph and of the collision library\<close>

text \<open>
  \<open>osg::Vec3f\<close> and \<open>btVector3\<close> are three single-precision floats.  The embedding
  idealises every float as a real number: rounding, infinities and NaN are not modelled.
  The operations below are those of \<open>osg::Vec3f\<close> that \<open>physicssystem.cpp\<close> calls;
  the conversions \<open>toBullet\<close> and \<open>toOsg\<close> of \<open>convert.hpp\<close> copy components and are
  therefore the identity here.
\<close>

datatype Vec3f = Vec3f (vx: real) (vy: real) (vz: real)

instantiation Vec3f :: "{plus, minus}"
begin

definition plus_Vec3f :: "Vec3f \<Rightarrow> Vec3f \<Rightarrow> Vec3f" where
  "plus_Vec3f a b = Vec3f (vx a + vx b) (vy a + vy b) (vz a + vz b)"

definition minus_Vec3f :: "Vec3f \<Rightarrow> Vec3f \<Rightarrow> Vec3f" where
  "minus_Vec3f a b = Vec3f (vx a - vx b) (vy a - vy b) (vz a - vz b)"

instance ..

end

text \<open>\<open>operator*\<close> between two vectors: the dot product.\<close>

definition dot :: "Vec3f \<Rightarrow> Vec3f \<Rightarrow> real" where
  "dot a b = vx a * vx b + vy a * vy b + vz a * vz b"

text \<open>\<open>operator*\<close> and \<open>operator/\<close> between a vector and a scalar.\<close>

definition scale :: "Vec3f \<Rightarrow> real \<Rightarrow> Vec3f" where
  "scale a s = Vec3f (vx a * s) (vy a * s) (vz a * s)"

definition divide_vec :: "Vec3f \<Rightarrow> real \<Rightarrow> Vec3f" where
  "divide_vec a s = Vec3f (vx a / s) (vy a / s) (vz a / s)"

definition length2 :: "Vec3f \<Rightarrow> real" where
  "length2 a = vx a * vx a + vy a * vy a + vz a * vz a"

definition length_vec :: "Vec3f \<Rightarrow> real" where
  "length_vec a = sqrt (length2 a)"

text \<open>
  \<open>Vec3f::normalize()\<close> rescales the vector in place when its norm is positive and
  returns the norm it had.  The model returns the pair (norm, vector afterwards).
\<close>

definition normalize :: "Vec3f \<Rightarrow> real \<times> Vec3f" where
  "normalize a =
     (let norm = length_vec a
      in if norm > 0 then (norm, scale a (1 / norm)) else (norm, a))"

record Quat =
  qx :: real
  qy :: real
  qz :: real
  qw :: real

definition quat_identity :: Quat where
  "quat_identity = \<lparr>qx = 0, qy = 0, qz = 0, qw = 1\<rparr>"

section \<open>Constants of the movement solver\<close>

definition sMaxSlope :: real where "sMaxSlope = 49"
definition sStepSizeUp :: real where "sStepSizeUp = 34"
definition sStepSizeDown :: real where "sStepSizeDown = 62"
definition sMaxIterations :: int where "sMaxIterations = 8"

text \<open>\<open>std::numeric_limits<float>::epsilon()\<close> and \<open>std::numeric_limits<float>::max()\<close>.\<close>

definition float_epsilon :: real where "float_epsilon = 1 / 2 ^ 23"
definition float_max :: real where "float_max = (2 - 1 / 2 ^ 23) * 2 ^ 127"

text \<open>
  Modelled from the spec: \<open>collisiontype.hpp\<close> is not among the sources.  The filter
  groups are the bit flags World, Actor, HeightMap, Projectile, Water of section 3.
\<close>

definition CollisionType_World :: int where "CollisionType_World = 1"
definition CollisionType_Actor :: int where "CollisionType_Actor = 2"
definition CollisionType_HeightMap :: int where "CollisionType_HeightMap = 4"
definition CollisionType_Projectile :: int where "CollisionType_Projectile = 8"
definition CollisionType_Water :: int where "CollisionType_Water = 16"

section \<open>Collision objects\<close>

record btTransform =
  rotation :: Quat
  origin :: Vec3f

datatype PHY_ScalarType = PHY_FLOAT | PHY_SHORT | PHY_UCHAR

record btHeightfieldTerrainShape =
  m_heightStickWidth :: int
  m_heightStickLength :: int
  m_heightfieldData :: "real list"
  m_heightScale :: real
  m_minHeight :: real
  m_maxHeight :: real
  m_upAxis :: int
  m_heightDataType :: PHY_ScalarType
  m_flipQuadEdges :: bool
  m_useDiamondSubdivision :: bool
  m_localScaling :: Vec3f

text \<open>
  A shape built by the shape manager is opaque to the physics system: it is named by the
  mesh it was loaded from and carries the local scaling that \<open>Object::setScale\<close> writes.
\<close>

datatype btCollisionShape =
    HeightfieldTerrainShape btHeightfieldTerrainShape
  | MeshShape string Vec3f
  | StaticPlaneShape Vec3f real
  | NoShape

text \<open>
  A collision object with the filter group and mask of its broadphase handle, which
  \<open>addCollisionObject\<close> sets.
\<close>

record btCollisionObject =
  collisionShape :: btCollisionShape
  worldTransform :: btTransform
  collisionFilterGroup :: int
  collisionFilterMask :: int

definition new_btCollisionObject :: btCollisionObject where
  "new_btCollisionObject =
     \<lparr>collisionShape = NoShape,
      worldTransform = \<lparr>rotation = quat_identity, origin = Vec3f 0 0 0\<rparr>,
      collisionFilterGroup = 0, collisionFilterMask = 0\<rparr>"

text \<open>The dynamics world, as far as the physics system writes it: the objects it holds.\<close>

record btDynamicsWorld =
  collisionObjects :: "btCollisionObject list"

definition addCollisionObject ::
  "btDynamicsWorld \<Rightarrow> btCollisionObject \<Rightarrow> int \<Rightarrow> int \<Rightarrow> btDynamicsWorld" where
  "addCollisionObject w obj grp msk =
     w\<lparr>collisionObjects := collisionObjects w @
         [obj\<lparr>collisionFilterGroup := grp, collisionFilterMask := msk\<rparr>]\<rparr>"

section \<open>Game entities\<close>

text \<open>
  An \<open>MWWorld::Ptr\<close> is a handle compared by identity.  What the physics system reads
  and writes through a handle (reference data, cell, class, creature statistics) is kept
  in one record per handle.
\<close>

type_synonym Ptr = nat

record PtrData =
  refPos :: Vec3f
  refRot0 :: real
  refRot2 :: real
  cellRefScale :: real
  baseNodeAttitude :: Quat
  classIsMobile :: bool
  classIsPureWaterCreature :: bool
  movementSettingsZ :: real
  fallHeight :: real
  cellHasWater :: bool
  cellWaterLevel :: real
  waterWalkingMagnitude :: real
  slowFallMagnitude :: real

type_synonym GameData = "Ptr \<Rightarrow> PtrData"

text \<open>
  Modelled from the spec: \<open>actor.hpp\<close> is not among the sources.  Section 3 lists the
  state of an actor; the accessors used by \<open>physicssystem.cpp\<close> read and write these
  fields.
\<close>

record Actor =
  actorCollisionObject :: btCollisionObject
  mHalfExtents :: Vec3f
  mOnGround :: bool
  mInertialForce :: Vec3f
  mCollisionMode :: bool
  mCanWaterWalk :: bool
  mWalkingOnWater :: bool

definition enableCollisionMode :: "Actor \<Rightarrow> bool \<Rightarrow> Actor" where
  "enableCollisionMode a cmode = a\<lparr>mCollisionMode := cmode\<rparr>"

record Object =
  objPtr :: Ptr
  objCollisionObject :: btCollisionObject

record HeightField =
  mShape :: btHeightfieldTerrainShape
  mCollisionObject :: btCollisionObject

type_synonym PtrVelocityList = "(Ptr \<times> Vec3f) list"

record PhysicsSystem =
  mObjects :: "Ptr \<rightharpoonup> Object"
  mActors :: "Ptr \<rightharpoonup> Actor"
  mHeightFields :: "(int \<times> int) \<rightharpoonup> HeightField"
  mDynamicsWorld :: btDynamicsWorld
  mMovementQueue :: PtrVelocityList
  mMovementResults :: PtrVelocityList
  mCollisions :: "(string \<times> string) list"
  mStandingCollisions :: "(string \<times> string) list"
  mTimeAccum :: real
  mWaterEnabled :: bool
  mWaterHeight :: real
  mDebugDrawEnabled :: bool

section \<open>The movement queue\<close>

text \<open>
  \<open>PhysicsSystem::queueObjectMovement\<close>: the loop walks the queue from the front, overwrites
  the vector of the first entry whose handle equals \<open>ptr\<close> and returns; when the loop falls
  off the end, the pair is pushed at the back.
\<close>

fun queue_walk :: "PtrVelocityList \<Rightarrow> Ptr \<Rightarrow> Vec3f \<Rightarrow> PtrVelocityList" where
  "queue_walk [] ptr movement = [(ptr, movement)]"
| "queue_walk (e # rest) ptr movement =
     (if fst e = ptr then (fst e, movement) # rest
      else e # queue_walk rest ptr movement)"

definition queueObjectMovement :: "PhysicsSystem \<Rightarrow> Ptr \<Rightarrow> Vec3f \<Rightarrow> PhysicsSystem" where
  "queueObjectMovement s ptr movement =
     s\<lparr>mMovementQueue := queue_walk (mMovementQueue s) ptr movement\<rparr>"

text \<open>A run of queueing requests, in order.\<close>

definition queue_all :: "PhysicsSystem \<Rightarrow> (Ptr \<times> Vec3f) list \<Rightarrow> PhysicsSystem" where
  "queue_all s requests = foldl (\<lambda>s' r. queueObjectMovement s' (fst r) (snd r)) s requests"

definition clearQueuedMovement :: "PhysicsSystem \<Rightarrow> PhysicsSystem" where
  "clearQueuedMovement s =
     s\<lparr>mMovementQueue := [], mCollisions := [], mStandingCollisions := []\<rparr>"

section \<open>Collision mode of the player\<close>

text \<open>
  \<open>PhysicsSystem::toggleCollisionMode\<close>; \<open>player\<close> is what
  \<open>MWBase::Environment::get().getWorld()->getPlayerPtr()\<close> returns.
\<close>

definition toggleCollisionMode :: "Ptr \<Rightarrow> PhysicsSystem \<Rightarrow> bool \<times> PhysicsSystem" where
  "toggleCollisionMode player s =
     (case mActors s player of
        Some found \<Rightarrow>
          (let cmode = mCollisionMode found;
               cmode = \<not> cmode
           in (cmode, s\<lparr>mActors := (mActors s)(player \<mapsto> enableCollisionMode found cmode)\<rparr>))
      | None \<Rightarrow> (False, s))"

section \<open>Terrain tiles\<close>

text \<open>
  The loop of the \<open>HeightField\<close> constructor that finds the least and the greatest height.
  The counter \<open>i\<close> is an \<open>int\<close> compared with the float \<open>sqrtVerts*sqrtVerts\<close>.  The
  heights are a bare \<open>float*\<close> in the source; the model takes the array as a list and
  answers \<open>None\<close> when the loop reads past its end.
\<close>

function heights_loop ::
  "real list \<Rightarrow> real \<Rightarrow> int \<Rightarrow> real \<Rightarrow> real \<Rightarrow> (real \<times> real) option" where
  "heights_loop heights sqrtVerts i minh maxh =
     (if real_of_int i < sqrtVerts * sqrtVerts then
        (if 0 \<le> i \<and> nat i < length heights then
           (let h = heights ! nat i;
                maxh = (if h > maxh then h else maxh);
                minh = (if h < minh then h else minh)
            in heights_loop heights sqrtVerts (i + 1) minh maxh)
         else None)
      else Some (minh, maxh))"
  by pat_completeness auto
termination
  by (relation "measure (\<lambda>(heights, sqrtVerts, i, minh, maxh).
        nat (\<lceil>sqrtVerts * sqrtVerts\<rceil> - i))") (auto simp: less_ceiling_iff)

declare heights_loop.simps [simp del]

text \<open>Conversion of a float to \<open>int\<close> truncates towards zero.\<close>

definition float_to_int :: "real \<Rightarrow> int" where
  "float_to_int r = (if r \<ge> 0 then \<lfloor>r\<rfloor> else \<lceil>r\<rceil>)"

definition HeightField_new ::
  "real list \<Rightarrow> int \<Rightarrow> int \<Rightarrow> real \<Rightarrow> real \<Rightarrow> HeightField option" where
  "HeightField_new heights x y triSize sqrtVerts =
     (case heights of
        [] \<Rightarrow> None
      | h0 # _ \<Rightarrow>
          (case heights_loop heights sqrtVerts 1 h0 h0 of
             None \<Rightarrow> None
           | Some (minh, maxh) \<Rightarrow>
               (let shape =
                      \<lparr>m_heightStickWidth = float_to_int sqrtVerts,
                       m_heightStickLength = float_to_int sqrtVerts,
                       m_heightfieldData = heights, m_heightScale = 1,
                       m_minHeight = minh, m_maxHeight = maxh, m_upAxis = 2,
                       m_heightDataType = PHY_FLOAT, m_flipQuadEdges = True,
                       m_useDiamondSubdivision = False,
                       m_localScaling = Vec3f 1 1 1\<rparr>;
                    shape = shape\<lparr>m_useDiamondSubdivision := True\<rparr>;
                    shape = shape\<lparr>m_localScaling := Vec3f triSize triSize 1\<rparr>;
                    transform =
                      \<lparr>rotation = quat_identity,
                       origin = Vec3f ((real_of_int x + 0.5) * triSize * (sqrtVerts - 1))
                                      ((real_of_int y + 0.5) * triSize * (sqrtVerts - 1))
                                      ((maxh + minh) * 0.5)\<rparr>;
                    obj = new_btCollisionObject;
                    obj = obj\<lparr>collisionShape := HeightfieldTerrainShape shape\<rparr>;
                    obj = obj\<lparr>worldTransform := transform\<rparr>
                in Some \<lparr>mShape = shape, mCollisionObject = obj\<rparr>)))"

definition addHeightField ::
  "PhysicsSystem \<Rightarrow> real list \<Rightarrow> int \<Rightarrow> int \<Rightarrow> real \<Rightarrow> real \<Rightarrow> PhysicsSystem option" where
  "addHeightField s heights x y triSize sqrtVerts =
     (case HeightField_new heights x y triSize sqrtVerts of
        None \<Rightarrow> None
      | Some heightfield \<Rightarrow>
          Some (s\<lparr>mHeightFields := (mHeightFields s)((x, y) \<mapsto> heightfield),
                  mDynamicsWorld :=
                    addCollisionObject (mDynamicsWorld s) (mCollisionObject heightfield)
                      CollisionType_HeightMap
                      (CollisionType_Actor OR CollisionType_Projectile)\<rparr>))"

section \<open>What the solver asks of its collaborators\<close>

text \<open>
  \<open>ActorTracer\<close> (\<open>trace.h\<close>) after a sweep.  The tracer sets \<open>mHitObject\<close> whenever
  \<open>mFraction < 1\<close>; the solver reads it only then.
\<close>

record ActorTracer =
  mEndPos :: Vec3f
  mPlaneNormal :: Vec3f
  mHitObject :: btCollisionObject
  mFraction :: real

record ClosestRayResultCallback =
  hasHit :: bool
  m_hitPointWorld :: Vec3f
  m_hitNormalWorld :: Vec3f

text \<open>\<open>BulletShapeInstance\<close>: \<open>getCollisionShape()\<close> may be null.\<close>

record BulletShapeInstance =
  getCollisionShape :: "btCollisionShape option"
  mAnimatedShapes :: "(int \<times> int) list"

text \<open>
  The collision library, the shape manager, the scene graph's quaternions and the game
  world are outside \<open>physicssystem.cpp\<close>.  Their answers are parameters of the model:
  the sweeps \<open>doTrace\<close> and \<open>findGround\<close> and the ray test over a dynamics world, the
  bounding box of a placed shape, \<open>BulletShapeManager::createInstance\<close>, the rotation
  \<open>(Quat(rot0, (-1,0,0)) * Quat(rot2, (0,0,-1))) * v\<close> and the rotation
  \<open>Quat(rot2, (0,0,-1)) * v\<close>, the two game settings, the storm, and the world queries
  \<open>isFlying\<close> and \<open>isUnderwater\<close>.
\<close>

record Environment =
  doTrace :: "btCollisionObject \<Rightarrow> Vec3f \<Rightarrow> Vec3f \<Rightarrow> btDynamicsWorld \<Rightarrow> ActorTracer"
  findGround :: "Actor \<Rightarrow> Vec3f \<Rightarrow> Vec3f \<Rightarrow> btDynamicsWorld \<Rightarrow> ActorTracer"
  rayTest :: "Vec3f \<Rightarrow> Vec3f \<Rightarrow> int \<Rightarrow> int \<Rightarrow> btDynamicsWorld \<Rightarrow> ClosestRayResultCallback"
  getAabb :: "btCollisionShape \<Rightarrow> btTransform \<Rightarrow> Vec3f \<times> Vec3f"
  createInstance :: "string \<Rightarrow> BulletShapeInstance"
  rotatePitchYaw :: "real \<Rightarrow> real \<Rightarrow> Vec3f \<Rightarrow> Vec3f"
  rotateYaw :: "real \<Rightarrow> Vec3f \<Rightarrow> Vec3f"
  fSwimHeightScale :: real
  fStromWalkMult :: real
  isInStorm :: bool
  getStormDirection :: Vec3f
  isFlying :: "Ptr \<Rightarrow> bool"
  isUnderwater :: "Ptr \<Rightarrow> Vec3f \<Rightarrow> bool"

section \<open>Static objects\<close>

definition setLocalScaling :: "btCollisionShape \<Rightarrow> Vec3f \<Rightarrow> btCollisionShape" where
  "setLocalScaling shape scaling =
     (case shape of
        HeightfieldTerrainShape h \<Rightarrow> HeightfieldTerrainShape (h\<lparr>m_localScaling := scaling\<rparr>)
      | MeshShape name _ \<Rightarrow> MeshShape name scaling
      | StaticPlaneShape n c \<Rightarrow> StaticPlaneShape n c
      | NoShape \<Rightarrow> NoShape)"

text \<open>The constructor of \<open>Object\<close>: shape, then scale, rotation and origin from the handle.\<close>

definition Object_new :: "GameData \<Rightarrow> Ptr \<Rightarrow> btCollisionShape \<Rightarrow> Object" where
  "Object_new game ptr shape =
     (let obj = new_btCollisionObject;
          obj = obj\<lparr>collisionShape := shape\<rparr>;
          scl = cellRefScale (game ptr);
          obj = obj\<lparr>collisionShape := setLocalScaling (collisionShape obj) (Vec3f scl scl scl)\<rparr>;
          obj = obj\<lparr>worldTransform := (worldTransform obj)\<lparr>rotation := baseNodeAttitude (game ptr)\<rparr>\<rparr>;
          obj = obj\<lparr>worldTransform := (worldTransform obj)\<lparr>origin := refPos (game ptr)\<rparr>\<rparr>
      in \<lparr>objPtr = ptr, objCollisionObject = obj\<rparr>)"

text \<open>\<open>std::map::insert\<close> keeps the entry already stored under the key.\<close>

definition map_insert :: "('k \<rightharpoonup> 'v) \<Rightarrow> 'k \<Rightarrow> 'v \<Rightarrow> ('k \<rightharpoonup> 'v)" where
  "map_insert m k v = (case m k of None \<Rightarrow> m(k \<mapsto> v) | Some _ \<Rightarrow> m)"

definition addObject ::
  "Environment \<Rightarrow> GameData \<Rightarrow> PhysicsSystem \<Rightarrow> Ptr \<Rightarrow> string \<Rightarrow> PhysicsSystem" where
  "addObject env game s ptr mesh =
     (let shapeInstance = createInstance env mesh
      in case getCollisionShape shapeInstance of
           None \<Rightarrow> s
         | Some shape \<Rightarrow>
             (let obj = Object_new game ptr shape
              in s\<lparr>mObjects := map_insert (mObjects s) ptr obj,
                   mDynamicsWorld :=
                     addCollisionObject (mDynamicsWorld s) (objCollisionObject obj)
                       CollisionType_World
                       (CollisionType_Actor OR CollisionType_HeightMap OR
                        CollisionType_Projectile)\<rparr>))"

section \<open>The movement solver\<close>

text \<open>
  \<open>getSlope\<close>: the angle in degrees between a normal and the up axis.  Over the reals
  \<open>arccos\<close> stands for \<open>std::acos\<close>, which the tracer feeds with unit normals.
\<close>

definition getSlope :: "Vec3f \<Rightarrow> real" where
  "getSlope normal = arccos (dot normal (Vec3f 0 0 1)) * 180 / pi"

text \<open>
  \<open>stepMove\<close> takes \<open>position\<close> and \<open>remainingTime\<close> by reference; the model returns the
  flag together with the values the caller's two variables hold afterwards.
\<close>

definition stepMove ::
  "Environment \<Rightarrow> btCollisionObject \<Rightarrow> Vec3f \<Rightarrow> Vec3f \<Rightarrow> real \<Rightarrow> btDynamicsWorld
     \<Rightarrow> bool \<times> Vec3f \<times> real" where
  "stepMove env colobj position toMove remainingTime dynamicsWorld =
     (let stepper = doTrace env colobj position (position + Vec3f 0 0 sStepSizeUp) dynamicsWorld
      in if mFraction stepper < float_epsilon then (False, position, remainingTime)
         else
           (let tracer = doTrace env colobj (mEndPos stepper) (mEndPos stepper + toMove)
                           dynamicsWorld
            in if mFraction tracer < float_epsilon then (False, position, remainingTime)
               else
                 (let stepper = doTrace env colobj (mEndPos tracer)
                                  (mEndPos tracer - Vec3f 0 0 sStepSizeDown) dynamicsWorld
                  in if mFraction stepper < 1 \<and> getSlope (mPlaneNormal stepper) \<le> sMaxSlope
                     then
                       (if collisionFilterGroup (mHitObject stepper) = CollisionType_Actor
                        then (False, position, remainingTime)
                        else (True, mEndPos stepper, remainingTime * (1 - mFraction tracer)))
                     else (False, position, remainingTime))))"

definition project :: "Vec3f \<Rightarrow> Vec3f \<Rightarrow> Vec3f" where
  "project u v = scale v (dot u v)"

definition slide :: "Vec3f \<Rightarrow> Vec3f \<Rightarrow> Vec3f" where
  "slide direction planeNormal = direction - project direction planeNormal"

definition reflect :: "Vec3f \<Rightarrow> Vec3f \<Rightarrow> Vec3f" where
  "reflect velocity normal = velocity - scale (scale normal (dot normal velocity)) 2"

text \<open>
  \<open>MovementSolver::traceDown\<close> returns the position and sets the actor's on-ground flag;
  the model returns the position and the actor afterwards.
\<close>

definition traceDown ::
  "Environment \<Rightarrow> GameData \<Rightarrow> Ptr \<Rightarrow> Actor \<Rightarrow> btDynamicsWorld \<Rightarrow> real \<Rightarrow> Vec3f \<times> Actor" where
  "traceDown env game ptr actor dynamicsWorld maxHeight =
     (let position = refPos (game ptr);
          tracer = findGround env actor position (position - Vec3f 0 0 maxHeight) dynamicsWorld
      in if mFraction tracer \<ge> 1 then (position, actor\<lparr>mOnGround := False\<rparr>)
         else
           (let from_pt = position;
                to_pt = from_pt - Vec3f 0 0 maxHeight;
                resultCallback1 =
                  rayTest env from_pt to_pt 255
                    (CollisionType_World OR CollisionType_HeightMap) dynamicsWorld
            in if hasHit resultCallback1 \<and>
                  (length_vec (m_hitPointWorld resultCallback1 - mEndPos tracer) > 30
                   \<or> getSlope (mPlaneNormal tracer) > sMaxSlope)
               then (m_hitPointWorld resultCallback1 + Vec3f 0 0 1,
                     actor\<lparr>mOnGround := (getSlope (m_hitNormalWorld resultCallback1) \<le> sMaxSlope)\<rparr>)
               else (mEndPos tracer,
                     actor\<lparr>mOnGround := (getSlope (mPlaneNormal tracer) \<le> sMaxSlope)\<rparr>)))"

text \<open>\<open>PhysicsSystem::traceDown\<close>: an entity that is no actor keeps its position.\<close>

definition PhysicsSystem_traceDown ::
  "Environment \<Rightarrow> GameData \<Rightarrow> PhysicsSystem \<Rightarrow> Ptr \<Rightarrow> real \<Rightarrow> Vec3f \<times> PhysicsSystem" where
  "PhysicsSystem_traceDown env game s ptr maxHeight =
     (case mActors s ptr of
        None \<Rightarrow> (refPos (game ptr), s)
      | Some found \<Rightarrow>
          (let (pos, actor) = traceDown env game ptr found (mDynamicsWorld s) maxHeight
           in (pos, s\<lparr>mActors := (mActors s)(ptr \<mapsto> actor)\<rparr>)))"

subsection \<open>The solver loop of \<open>move\<close>\<close>

text \<open>
  The variables the loop of \<open>move\<close> rewrites, and the locals it only reads.  The tracer
  is written by \<open>doTrace\<close> before each of its reads, so it is local to an iteration.
\<close>

record SolverState =
  s_newPosition :: Vec3f
  s_velocity :: Vec3f
  s_remainingTime :: real

record SolverLocals =
  l_colobj :: btCollisionObject
  l_halfExtents :: Vec3f
  l_swimlevel :: real
  l_waterlevel :: real
  l_isFlying :: bool
  l_isPureWaterCreature :: bool
  l_origVelocity :: Vec3f
  l_dynamicsWorld :: btDynamicsWorld

datatype LoopExit = Continue SolverState | Break SolverState

text \<open>The swim-ceiling branch: \<open>velocity.normalize()\<close> rescales \<open>velocity\<close> itself.\<close>

definition swim_clamp :: "Vec3f \<Rightarrow> Vec3f" where
  "swim_clamp v =
     (let down = Vec3f 0 0 (-1);
          (movelen, v) = normalize v;
          reflectdir = reflect v down;
          reflectdir = snd (normalize reflectdir)
      in scale (slide reflectdir down) movelen)"

text \<open>
  The last branch of the loop body: both step attempts failed.  \<open>direction\<close> is a
  normalised copy, \<open>velocity\<close> itself stays as it is.
\<close>

definition slide_velocity :: "Vec3f \<Rightarrow> Vec3f \<Rightarrow> Vec3f" where
  "slide_velocity v planeNormal =
     (let (movelen, direction) = normalize v;
          reflectdir = reflect v planeNormal;
          reflectdir = snd (normalize reflectdir)
      in scale (slide reflectdir planeNormal) movelen)"

definition slide_branch :: "SolverLocals \<Rightarrow> SolverState \<Rightarrow> ActorTracer \<Rightarrow> LoopExit" where
  "slide_branch loc st tracer =
     (let newVelocity = slide_velocity (s_velocity st) (mPlaneNormal tracer)
      in if length2 (newVelocity - s_velocity st) < 0.01 then Break st
         else if dot (s_velocity st) (l_origVelocity loc) \<le> 0 then Break st
         else
           (let v = newVelocity;
                v = (if \<not> (vz (s_newPosition st) < l_swimlevel loc \<or> l_isFlying loc)
                     then Vec3f (vx v) (vy v) (min (vz v) 0) else v)
            in Continue (st\<lparr>s_velocity := v\<rparr>)))"

text \<open>The two step attempts, and what the loop does with their outcome.\<close>

definition step_branch ::
  "Environment \<Rightarrow> SolverLocals \<Rightarrow> SolverState \<Rightarrow> ActorTracer \<Rightarrow> LoopExit" where
  "step_branch env loc st tracer =
     (let oldPosition = s_newPosition st;
          (result, pos, remaining) =
             stepMove env (l_colobj loc) (s_newPosition st)
               (scale (s_velocity st) (s_remainingTime st)) (s_remainingTime st) (l_dynamicsWorld loc);
          (result, pos, remaining) =
             (if \<not> result then
                (let normalizedVelocity = snd (normalize (s_velocity st))
                 in stepMove env (l_colobj loc) pos (scale normalizedVelocity 10) remaining
                      (l_dynamicsWorld loc))
              else (result, pos, remaining));
          st = st\<lparr>s_newPosition := pos, s_remainingTime := remaining\<rparr>
      in if result then
           (if l_isPureWaterCreature loc \<and> vz (s_newPosition st) + vz (l_halfExtents loc) > l_waterlevel loc
            then Continue (st\<lparr>s_newPosition := oldPosition\<rparr>)
            else Continue st)
         else slide_branch loc st tracer)"

definition loop_body :: "Environment \<Rightarrow> SolverLocals \<Rightarrow> SolverState \<Rightarrow> LoopExit" where
  "loop_body env loc st =
     (let nextpos = s_newPosition st + scale (s_velocity st) (s_remainingTime st)
      in if vz (s_newPosition st) < l_swimlevel loc \<and> \<not> l_isFlying loc \<and>
            vz nextpos > l_swimlevel loc \<and> vz (s_newPosition st) \<le> l_swimlevel loc
         then Continue (st\<lparr>s_velocity := swim_clamp (s_velocity st)\<rparr>)
         else if length2 (s_newPosition st - nextpos) > 0.0001 then
           (let tracer = doTrace env (l_colobj loc) (s_newPosition st) nextpos (l_dynamicsWorld loc)
            in if mFraction tracer \<ge> 1 then Break (st\<lparr>s_newPosition := mEndPos tracer\<rparr>)
               else step_branch env loc st tracer)
         else Break st)"

function move_loop ::
  "Environment \<Rightarrow> SolverLocals \<Rightarrow> int \<Rightarrow> SolverState \<Rightarrow> SolverState" where
  "move_loop env loc iterations st =
     (if iterations < sMaxIterations \<and> s_remainingTime st > 0.01 then
        (case loop_body env loc st of
           Continue st' \<Rightarrow> move_loop env loc (iterations + 1) st'
         | Break st' \<Rightarrow> st')
      else st)"
  by pat_completeness auto
termination
  by (relation "measure (\<lambda>(env, loc, iterations, st). nat (sMaxIterations - iterations))")
     auto

declare move_loop.simps [simp del]

subsection \<open>Before the loop: velocity and inertia\<close>

text \<open>
  The velocity the loop starts from and the local \<open>inertia\<close>: full orientation when
  swimming or flying, yaw only otherwise, where an upward velocity replaces the local
  inertia and an actor off the ground adds its stored inertial force.
\<close>

definition initial_velocity ::
  "Environment \<Rightarrow> PtrData \<Rightarrow> Actor \<Rightarrow> Vec3f \<Rightarrow> Vec3f \<Rightarrow> real \<Rightarrow> bool \<Rightarrow> Vec3f \<times> Vec3f" where
  "initial_velocity env ref physicActor movement position swimlvl isFlying_ptr =
     (let inertia = mInertialForce physicActor
      in if vz position < swimlvl \<or> isFlying_ptr
         then (rotatePitchYaw env (refRot0 ref) (refRot2 ref) movement, inertia)
         else
           (let v = rotateYaw env (refRot2 ref) movement;
                inertia = (if vz v > 0 then v else inertia);
                v = (if \<not> mOnGround physicActor then v + mInertialForce physicActor else v)
            in (v, inertia)))"

definition storm_velocity :: "Environment \<Rightarrow> Vec3f \<Rightarrow> Vec3f" where
  "storm_velocity env v =
     (if isInStorm env then
        (let stormDirection = getStormDirection env;
             angleDegrees = arccos (dot stormDirection v) * 180 / pi
         in scale v (1 - (fStromWalkMult env * (angleDegrees / 180))))
      else v)"

subsection \<open>After the loop: ground probe and gravity\<close>

text \<open>
  The probe below the final position.  It yields the position, the local inertia and
  \<open>isOnGround\<close>.  \<open>position\<close> is the position the call started from, raised by the half
  height; \<open>v\<close> is the velocity the loop ended with.
\<close>

definition ground_probe ::
  "Environment \<Rightarrow> SolverLocals \<Rightarrow> Actor \<Rightarrow> Vec3f \<Rightarrow> Vec3f \<Rightarrow> Vec3f \<Rightarrow> Vec3f
     \<Rightarrow> Vec3f \<times> Vec3f \<times> bool" where
  "ground_probe env loc physicActor position newPos v inertia =
     (if \<not> (vz inertia > 0) \<and> \<not> (vz newPos < l_swimlevel loc) then
        (let from_pt = newPos;
             to_pt = newPos - (if mOnGround physicActor then Vec3f 0 0 (sStepSizeDown + 2)
                               else Vec3f 0 0 2);
             tracer = doTrace env (l_colobj loc) from_pt to_pt (l_dynamicsWorld loc)
         in if mFraction tracer < 1 \<and> getSlope (mPlaneNormal tracer) \<le> sMaxSlope \<and>
               collisionFilterGroup (mHitObject tracer) \<noteq> CollisionType_Actor
            then
              ((if \<not> l_isFlying loc then Vec3f (vx newPos) (vy newPos) (vz (mEndPos tracer) + 1)
                else newPos),
               inertia, True)
            else
              (let inertia =
                     (if mFraction tracer < 1 \<and>
                         collisionFilterGroup (mHitObject tracer) = CollisionType_Actor
                      then
                        (if length2 (Vec3f (vx v) (vy v) 0) < 100 * 100 then
                           (let (aabbMin, aabbMax) =
                                  getAabb env (collisionShape (mHitObject tracer))
                                    (worldTransform (mHitObject tracer));
                                center = divide_vec (aabbMin + aabbMax) 2;
                                inertia = Vec3f (vx position - vx center)
                                                (vy position - vy center) 0;
                                inertia = snd (normalize inertia)
                            in scale inertia 100)
                         else inertia)
                      else inertia)
               in (newPos, inertia, False)))
      else (newPos, inertia, False))"

text \<open>The inertial force the actor is left with, and its on-ground flag.\<close>

definition integrate_gravity ::
  "Actor \<Rightarrow> bool \<Rightarrow> Vec3f \<Rightarrow> real \<Rightarrow> bool \<Rightarrow> Vec3f \<Rightarrow> real \<Rightarrow> real \<Rightarrow> Actor" where
  "integrate_gravity physicActor isOnGround newPos swimlvl isFlying_ptr inertia time slowFall =
     (let physicActor =
            (if isOnGround \<or> vz newPos < swimlvl \<or> isFlying_ptr
             then physicActor\<lparr>mInertialForce := Vec3f 0 0 0\<rparr>
             else
               (let inertia = Vec3f (vx inertia) (vy inertia) (vz inertia + time * (- 627.2));
                    inertia = (if vz inertia < 0
                               then Vec3f (vx inertia) (vy inertia) (vz inertia * slowFall)
                               else inertia)
                in physicActor\<lparr>mInertialForce := inertia\<rparr>))
      in physicActor\<lparr>mOnGround := isOnGround\<rparr>)"

subsection \<open>\<open>MovementSolver::move\<close>\<close>

text \<open>
  The part of \<open>move\<close> that runs with collision mode on.  It returns the new position of
  the feet and the actor afterwards.
\<close>

definition move_collide ::
  "Environment \<Rightarrow> PtrData \<Rightarrow> Actor \<Rightarrow> Vec3f \<Rightarrow> real \<Rightarrow> bool \<Rightarrow> real \<Rightarrow> real
     \<Rightarrow> btDynamicsWorld \<Rightarrow> Vec3f \<times> Actor" where
  "move_collide env ref physicActor movement time isFlying_ptr waterlvl slowFall dynWorld =
     (let position = refPos ref;
          halfExt = mHalfExtents physicActor;
          position = Vec3f (vx position) (vy position) (vz position + vz halfExt);
          swimlvl = waterlvl + vz halfExt - (vz halfExt * 2 * fSwimHeightScale env);
          (v, inertia) =
             initial_velocity env ref physicActor movement position swimlvl isFlying_ptr;
          v = storm_velocity env v;
          loc = \<lparr>l_colobj = actorCollisionObject physicActor, l_halfExtents = halfExt,
                 l_swimlevel = swimlvl, l_waterlevel = waterlvl, l_isFlying = isFlying_ptr,
                 l_isPureWaterCreature = classIsPureWaterCreature ref,
                 l_origVelocity = v, l_dynamicsWorld = dynWorld\<rparr>;
          st = move_loop env loc 0
                 \<lparr>s_newPosition = position, s_velocity = v, s_remainingTime = time\<rparr>;
          (newPos, inertia, isOnGround) =
             ground_probe env loc physicActor position (s_newPosition st) (s_velocity st) inertia;
          physicActor =
             integrate_gravity physicActor isOnGround newPos swimlvl isFlying_ptr inertia
               time slowFall;
          newPos = Vec3f (vx newPos) (vy newPos) (vz newPos - vz halfExt)
      in (newPos, physicActor))"

text \<open>
  \<open>move\<close> itself: the two early returns, then the solver.  With collision mode on the
  jump channel of the handle's movement settings is zeroed on the way.
\<close>

definition move ::
  "Environment \<Rightarrow> GameData \<Rightarrow> Ptr \<Rightarrow> Actor \<Rightarrow> Vec3f \<Rightarrow> real \<Rightarrow> bool \<Rightarrow> real \<Rightarrow> real
     \<Rightarrow> btDynamicsWorld \<Rightarrow> Vec3f \<times> GameData \<times> Actor" where
  "move env game ptr physicActor movement time isFlying_ptr waterlvl slowFall dynWorld =
     (let ref = game ptr;
          position = refPos ref
      in if \<not> classIsMobile ref then (position, game, physicActor)
         else
           (let physicActor = physicActor\<lparr>mWalkingOnWater := False\<rparr>
            in if \<not> mCollisionMode physicActor
               then (position +
                       scale (rotatePitchYaw env (refRot0 ref) (refRot2 ref) movement) time,
                     game, physicActor)
               else
                 (let (newPos, physicActor) =
                        move_collide env ref physicActor movement time isFlying_ptr waterlvl
                          slowFall dynWorld
                  in (newPos, game(ptr := ref\<lparr>movementSettingsZ := 0\<rparr>), physicActor))))"

section \<open>The fixed physics tick\<close>

text \<open>
  One turn of the loop over the queue in \<open>applyQueuedMovement\<close>: the game data, the
  actors and the results before and after.  An entry whose actor is gone is skipped.
\<close>

definition drain_entry ::
  "Environment \<Rightarrow> real \<Rightarrow> btDynamicsWorld \<Rightarrow> GameData \<times> (Ptr \<rightharpoonup> Actor) \<times> PtrVelocityList
     \<Rightarrow> Ptr \<times> Vec3f \<Rightarrow> GameData \<times> (Ptr \<rightharpoonup> Actor) \<times> PtrVelocityList" where
  "drain_entry env timeAccum dynWorld acc entry =
     (let (game, actors, results) = acc;
          ptr = fst entry;
          waterlvl = - float_max;
          waterlvl = (if cellHasWater (game ptr) then cellWaterLevel (game ptr) else waterlvl);
          oldHeight = vz (refPos (game ptr));
          waterCollision =
            (waterWalkingMagnitude (game ptr) \<noteq> 0 \<and> cellHasWater (game ptr) \<and>
             \<not> isUnderwater env ptr (refPos (game ptr)))
      in case actors ptr of
           None \<Rightarrow> (game, actors, results)
         | Some physicActor \<Rightarrow>
             (let physicActor = physicActor\<lparr>mCanWaterWalk := waterCollision\<rparr>;
                  slowFall = 1 - max 0 (min 1 (slowFallMagnitude (game ptr) * 0.005));
                  (newpos, game, physicActor) =
                     move env game ptr physicActor (snd entry) timeAccum (isFlying env ptr)
                       waterlvl slowFall dynWorld;
                  heightDiff = vz newpos - oldHeight;
                  game = (if heightDiff < 0
                          then game(ptr := (game ptr)\<lparr>fallHeight := fallHeight (game ptr) + (- heightDiff)\<rparr>)
                          else game)
              in (game, actors(ptr \<mapsto> physicActor), results @ [(ptr, newpos)])))"

text \<open>
  \<open>PhysicsSystem::applyQueuedMovement\<close> returns a reference to \<open>mMovementResults\<close>; the
  model returns that list, the game data and the physics system afterwards.
\<close>

definition applyQueuedMovement ::
  "Environment \<Rightarrow> GameData \<Rightarrow> PhysicsSystem \<Rightarrow> real
     \<Rightarrow> PtrVelocityList \<times> GameData \<times> PhysicsSystem" where
  "applyQueuedMovement env game s dt =
     (let s = s\<lparr>mMovementResults := []\<rparr>;
          s = s\<lparr>mTimeAccum := mTimeAccum s + dt\<rparr>;
          (game, s) =
             (if mTimeAccum s \<ge> 1 / 60 then
                (let s = s\<lparr>mCollisions := [], mStandingCollisions := []\<rparr>;
                     (game, actors, results) =
                        foldl (drain_entry env (mTimeAccum s) (mDynamicsWorld s))
                          (game, mActors s, mMovementResults s) (mMovementQueue s);
                     s = s\<lparr>mActors := actors, mMovementResults := results\<rparr>;
                     s = s\<lparr>mTimeAccum := 0\<rparr>
                 in (game, s))
              else (game, s));
          s = s\<lparr>mMovementQueue := []\<rparr>
      in (mMovementResults s, game, s))"

section \<open>Names for parts of the solver\<close>

text \<open>
  The third sweep of \<open>stepMove\<close> (down from where the forward sweep ended), and the
  capsule sweep and the thin ray of \<open>traceDown\<close>.
\<close>

definition downward_sweep ::
  "Environment \<Rightarrow> btCollisionObject \<Rightarrow> Vec3f \<Rightarrow> Vec3f \<Rightarrow> btDynamicsWorld \<Rightarrow> ActorTracer" where
  "downward_sweep env colobj position toMove dynamicsWorld =
     (let stepper = doTrace env colobj position (position + Vec3f 0 0 sStepSizeUp) dynamicsWorld;
          tracer = doTrace env colobj (mEndPos stepper) (mEndPos stepper + toMove) dynamicsWorld
      in doTrace env colobj (mEndPos tracer) (mEndPos tracer - Vec3f 0 0 sStepSizeDown)
           dynamicsWorld)"

definition ground_sweep ::
  "Environment \<Rightarrow> GameData \<Rightarrow> Ptr \<Rightarrow> Actor \<Rightarrow> btDynamicsWorld \<Rightarrow> real \<Rightarrow> ActorTracer" where
  "ground_sweep env game ptr actor dynamicsWorld maxHeight =
     findGround env actor (refPos (game ptr)) (refPos (game ptr) - Vec3f 0 0 maxHeight)
       dynamicsWorld"

definition ground_ray ::
  "Environment \<Rightarrow> GameData \<Rightarrow> Ptr \<Rightarrow> btDynamicsWorld \<Rightarrow> real \<Rightarrow> ClosestRayResultCallback" where
  "ground_ray env game ptr dynamicsWorld maxHeight =
     rayTest env (refPos (game ptr)) (refPos (game ptr) - Vec3f 0 0 maxHeight) 255
       (CollisionType_World OR CollisionType_HeightMap) dynamicsWorld"

text \<open>
  In the loop of \<open>move\<close>: the position \<open>nextpos\<close> an iteration aims at, the sweep towards
  it, and the condition that both step attempts of the iteration fail.
\<close>

definition nextpos_of :: "SolverState \<Rightarrow> Vec3f" where
  "nextpos_of st = s_newPosition st + scale (s_velocity st) (s_remainingTime st)"

definition obstacle_sweep :: "Environment \<Rightarrow> SolverLocals \<Rightarrow> SolverState \<Rightarrow> ActorTracer" where
  "obstacle_sweep env loc st =
     doTrace env (l_colobj loc) (s_newPosition st) (nextpos_of st) (l_dynamicsWorld loc)"

definition step_up_fails :: "Environment \<Rightarrow> SolverLocals \<Rightarrow> SolverState \<Rightarrow> bool" where
  "step_up_fails env loc st =
     (\<not> fst (stepMove env (l_colobj loc) (s_newPosition st)
              (scale (s_velocity st) (s_remainingTime st)) (s_remainingTime st)
              (l_dynamicsWorld loc)) \<and>
      \<not> fst (stepMove env (l_colobj loc) (s_newPosition st)
              (scale (snd (normalize (s_velocity st))) 10) (s_remainingTime st)
              (l_dynamicsWorld loc)))"

text \<open>
  Gravity on the local inertia at the end of \<open>move\<close>: \<open>627.2 * time\<close> off the z component,
  which is then scaled by the slow-fall factor when it has become negative.
\<close>

definition fall :: "Vec3f \<Rightarrow> real \<Rightarrow> real \<Rightarrow> Vec3f" where
  "fall inertia time slowFall =
     Vec3f (vx inertia) (vy inertia)
       (if vz inertia - 627.2 * time < 0 then (vz inertia - 627.2 * time) * slowFall
        else vz inertia - 627.2 * time)"

text \<open>
  In a call of \<open>move\<close> with collision mode on: the position it starts from (the feet
  raised by the half height), the swim level, the locals of the loop, the state the loop
  ends with, and the sweep of the ground probe below that state.  \<open>pushed_off\<close> is the
  condition under which lines 419 to 428 of \<open>physicssystem.cpp\<close> overwrite the local
  inertia: the ground probe is made (the inertia does not point up, the position is not
  below the swim level), it hits a collider of the Actor group, and the horizontal speed
  is below 100.
\<close>

definition start_position :: "PtrData \<Rightarrow> Actor \<Rightarrow> Vec3f" where
  "start_position ref physicActor =
     Vec3f (vx (refPos ref)) (vy (refPos ref)) (vz (refPos ref) + vz (mHalfExtents physicActor))"

definition swim_level :: "Environment \<Rightarrow> Actor \<Rightarrow> real \<Rightarrow> real" where
  "swim_level env physicActor waterlvl =
     waterlvl + vz (mHalfExtents physicActor)
       - (vz (mHalfExtents physicActor) * 2 * fSwimHeightScale env)"

definition solver_locals ::
  "Environment \<Rightarrow> PtrData \<Rightarrow> Actor \<Rightarrow> Vec3f \<Rightarrow> bool \<Rightarrow> real \<Rightarrow> btDynamicsWorld \<Rightarrow> SolverLocals" where
  "solver_locals env ref physicActor movement isFlying_ptr waterlvl dynWorld =
     \<lparr>l_colobj = actorCollisionObject physicActor, l_halfExtents = mHalfExtents physicActor,
      l_swimlevel = swim_level env physicActor waterlvl, l_waterlevel = waterlvl,
      l_isFlying = isFlying_ptr, l_isPureWaterCreature = classIsPureWaterCreature ref,
      l_origVelocity =
        storm_velocity env
          (fst (initial_velocity env ref physicActor movement (start_position ref physicActor)
                  (swim_level env physicActor waterlvl) isFlying_ptr)),
      l_dynamicsWorld = dynWorld\<rparr>"

definition loop_end ::
  "Environment \<Rightarrow> PtrData \<Rightarrow> Actor \<Rightarrow> Vec3f \<Rightarrow> real \<Rightarrow> bool \<Rightarrow> real \<Rightarrow> btDynamicsWorld
     \<Rightarrow> SolverState" where
  "loop_end env ref physicActor movement time isFlying_ptr waterlvl dynWorld =
     (let loc = solver_locals env ref physicActor movement isFlying_ptr waterlvl dynWorld
      in move_loop env loc 0
           \<lparr>s_newPosition = start_position ref physicActor, s_velocity = l_origVelocity loc,
            s_remainingTime = time\<rparr>)"

definition probe_sweep ::
  "Environment \<Rightarrow> PtrData \<Rightarrow> Actor \<Rightarrow> Vec3f \<Rightarrow> real \<Rightarrow> bool \<Rightarrow> real \<Rightarrow> btDynamicsWorld
     \<Rightarrow> ActorTracer" where
  "probe_sweep env ref physicActor movement time isFlying_ptr waterlvl dynWorld =
     (let newPos = s_newPosition
                     (loop_end env ref physicActor movement time isFlying_ptr waterlvl dynWorld)
      in doTrace env (actorCollisionObject physicActor) newPos
           (newPos - (if mOnGround physicActor then Vec3f 0 0 (sStepSizeDown + 2)
                      else Vec3f 0 0 2))
           dynWorld)"

definition pushed_off ::
  "Environment \<Rightarrow> PtrData \<Rightarrow> Actor \<Rightarrow> Vec3f \<Rightarrow> real \<Rightarrow> bool \<Rightarrow> real \<Rightarrow> btDynamicsWorld
     \<Rightarrow> bool" where
  "pushed_off env ref physicActor movement time isFlying_ptr waterlvl dynWorld =
     (let inertia = snd (initial_velocity env ref physicActor movement
                          (start_position ref physicActor)
                          (swim_level env physicActor waterlvl) isFlying_ptr);
          st = loop_end env ref physicActor movement time isFlying_ptr waterlvl dynWorld;
          tracer = probe_sweep env ref physicActor movement time isFlying_ptr waterlvl dynWorld
      in \<not> (vz inertia > 0) \<and>
         \<not> (vz (s_newPosition st) < swim_level env physicActor waterlvl) \<and>
         mFraction tracer < 1 \<and>
         collisionFilterGroup (mHitObject tracer) = CollisionType_Actor \<and>
         length2 (Vec3f (vx (s_velocity st)) (vy (s_velocity st)) 0) < 100 * 100)"

section \<open>Concrete scenes\<close>

text \<open>
  Small worlds on which the properties below are evaluated: empty space, a tall wall
  facing \<open>-x\<close> that blocks every sweep towards \<open>+x\<close>, a level surface half way down
  every downward sweep (owned by a collider of the given group), and ground contacts
  for \<open>traceDown\<close> on a vertical face and on a level one.  In all of them handles are
  unrotated, so both rotations leave a vector as it is.
\<close>

definition no_hit :: "Vec3f \<Rightarrow> ActorTracer" where
  "no_hit to_pt =
     \<lparr>mEndPos = to_pt, mPlaneNormal = Vec3f 0 0 1, mHitObject = new_btCollisionObject,
      mFraction = 1\<rparr>"

definition hit_halfway :: "Vec3f \<Rightarrow> Vec3f \<Rightarrow> Vec3f \<Rightarrow> int \<Rightarrow> ActorTracer" where
  "hit_halfway from_pt to_pt normal grp =
     \<lparr>mEndPos = divide_vec (from_pt + to_pt) 2, mPlaneNormal = normal,
      mHitObject = new_btCollisionObject\<lparr>collisionFilterGroup := grp\<rparr>,
      mFraction = 1 / 2\<rparr>"

definition open_space :: Environment where
  "open_space =
     \<lparr>doTrace = (\<lambda>colobj from_pt to_pt w. no_hit to_pt),
      findGround = (\<lambda>actor from_pt to_pt w. no_hit to_pt),
      rayTest = (\<lambda>from_pt to_pt grp msk w.
         \<lparr>hasHit = False, m_hitPointWorld = Vec3f 0 0 0, m_hitNormalWorld = Vec3f 0 0 0\<rparr>),
      getAabb = (\<lambda>shape transform. (origin transform, origin transform)),
      createInstance = (\<lambda>mesh. \<lparr>getCollisionShape = None, mAnimatedShapes = []\<rparr>),
      rotatePitchYaw = (\<lambda>rot0 rot2 v. v),
      rotateYaw = (\<lambda>rot2 v. v),
      fSwimHeightScale = 0.9,
      fStromWalkMult = 0.25,
      isInStorm = False,
      getStormDirection = Vec3f 0 1 0,
      isFlying = (\<lambda>ptr. False),
      isUnderwater = (\<lambda>ptr pos. False)\<rparr>"

definition wall_ahead :: Environment where
  "wall_ahead =
     open_space\<lparr>doTrace := (\<lambda>colobj from_pt to_pt w.
        if vx to_pt > vx from_pt
        then \<lparr>mEndPos = from_pt, mPlaneNormal = Vec3f (- 1) 0 0,
              mHitObject = new_btCollisionObject\<lparr>collisionFilterGroup := CollisionType_World\<rparr>,
              mFraction = 0\<rparr>
        else no_hit to_pt)\<rparr>"

definition floor_below :: "int \<Rightarrow> Environment" where
  "floor_below grp =
     open_space\<lparr>doTrace := (\<lambda>colobj from_pt to_pt w.
        if vz to_pt < vz from_pt then hit_halfway from_pt to_pt (Vec3f 0 0 1) grp
        else no_hit to_pt)\<rparr>"

definition steep_contact :: "bool \<Rightarrow> Environment" where
  "steep_contact ray_hits =
     open_space\<lparr>findGround := (\<lambda>actor from_pt to_pt w.
                   hit_halfway from_pt to_pt (Vec3f 1 0 0) CollisionType_World),
                rayTest := (\<lambda>from_pt to_pt grp msk w.
                   \<lparr>hasHit = ray_hits, m_hitPointWorld = Vec3f 0 0 0,
                    m_hitNormalWorld = Vec3f 0 0 1\<rparr>)\<rparr>"

definition flat_contact :: Environment where
  "flat_contact =
     open_space\<lparr>findGround := (\<lambda>actor from_pt to_pt w.
                   hit_halfway from_pt to_pt (Vec3f 0 0 1) CollisionType_World)\<rparr>"

definition falling_actor :: Actor where
  "falling_actor =
     \<lparr>actorCollisionObject = new_btCollisionObject\<lparr>collisionFilterGroup := CollisionType_Actor\<rparr>,
      mHalfExtents = Vec3f 20 20 64, mOnGround = False, mInertialForce = Vec3f 0 0 0,
      mCollisionMode = True, mCanWaterWalk = False, mWalkingOnWater = False\<rparr>"

definition mobile_ref :: PtrData where
  "mobile_ref =
     \<lparr>refPos = Vec3f 0 0 100, refRot0 = 0, refRot2 = 0, cellRefScale = 1,
      baseNodeAttitude = quat_identity, classIsMobile = True,
      classIsPureWaterCreature = False, movementSettingsZ = 0, fallHeight = 0,
      cellHasWater = False, cellWaterLevel = 0, waterWalkingMagnitude = 0,
      slowFallMagnitude = 0\<rparr>"

definition one_actor_system :: PhysicsSystem where
  "one_actor_system =
     \<lparr>mObjects = Map.empty, mActors = [0 \<mapsto> falling_actor], mHeightFields = Map.empty,
      mDynamicsWorld = \<lparr>collisionObjects = []\<rparr>,
      mMovementQueue = [(0, Vec3f 0 60 0)], mMovementResults = [],
      mCollisions = [], mStandingCollisions = [], mTimeAccum = 0,
      mWaterEnabled = False, mWaterHeight = 0, mDebugDrawEnabled = False\<rparr>"

text \<open>
  A creature whose class is not mobile, and an airborne actor drifting sideways.
\<close>

definition static_ref :: PtrData where
  "static_ref = mobile_ref\<lparr>classIsMobile := False\<rparr>"

definition drifting_actor :: Actor where
  "drifting_actor = falling_actor\<lparr>mInertialForce := Vec3f 6 0 0\<rparr>"

text \<open>Another actor standing beside: only sweeps towards \<open>+x\<close> hit it.\<close>

definition actor_beside :: Environment where
  "actor_beside =
     open_space\<lparr>doTrace := (\<lambda>colobj from_pt to_pt w.
        if vx to_pt > vx from_pt
        then hit_halfway from_pt to_pt (Vec3f (- 1) 0 0) CollisionType_Actor
        else no_hit to_pt)\<rparr>"

definition two_queued :: PhysicsSystem where
  "two_queued = one_actor_system\<lparr>mMovementQueue := [(0, Vec3f 0 60 0), (1, Vec3f 60 0 0)]\<rparr>"

text \<open>
  States of the solver loop: a swimmer one unit below the swim level heading up and
  forward, the same swimmer exactly at the swim level, and a walker heading into the wall.
\<close>

definition swimming_locals :: SolverLocals where
  "swimming_locals =
     \<lparr>l_colobj = actorCollisionObject falling_actor, l_halfExtents = Vec3f 20 20 64,
      l_swimlevel = 0, l_waterlevel = 51.2, l_isFlying = False,
      l_isPureWaterCreature = False, l_origVelocity = Vec3f 180 0 240,
      l_dynamicsWorld = \<lparr>collisionObjects = []\<rparr>\<rparr>"

definition swimming_state :: SolverState where
  "swimming_state =
     \<lparr>s_newPosition = Vec3f 0 0 (- 1), s_velocity = Vec3f 180 0 240, s_remainingTime = 1 / 60\<rparr>"

definition surface_state :: SolverState where
  "surface_state =
     \<lparr>s_newPosition = Vec3f 0 0 0, s_velocity = Vec3f 180 0 240, s_remainingTime = 1 / 60\<rparr>"

definition walking_locals :: SolverLocals where
  "walking_locals =
     \<lparr>l_colobj = actorCollisionObject falling_actor, l_halfExtents = Vec3f 20 20 64,
      l_swimlevel = - 1000, l_waterlevel = - 1000, l_isFlying = False,
      l_isPureWaterCreature = False, l_origVelocity = Vec3f 60 0 0,
      l_dynamicsWorld = \<lparr>collisionObjects = []\<rparr>\<rparr>"

definition walking_state :: SolverState where
  "walking_state =
     \<lparr>s_newPosition = Vec3f 0 0 65, s_velocity = Vec3f 60 0 0, s_remainingTime = 1 / 60\<rparr>"

definition standing_actor :: Actor where
  "standing_actor = falling_actor\<lparr>mOnGround := True\<rparr>"

section \<open>Properties\<close>

subsection \<open>The movement queue\<close>

lemma queue_walk_absent:
  "ptr \<notin> fst ` set q \<Longrightarrow> queue_walk q ptr v = q @ [(ptr, v)]"
  by (induction q) auto

lemma queue_walk_present:
  "ptr \<in> fst ` set q \<Longrightarrow>
     \<exists>i<length q. fst (q ! i) = ptr \<and> (\<forall>j<i. fst (q ! j) \<noteq> ptr) \<and>
        queue_walk q ptr v = q[i := (ptr, v)]"
proof (induction q)
  case Nil
  then show ?case by simp
next
  case (Cons e rest)
  show ?case
  proof (cases "fst e = ptr")
    case True
    then have "queue_walk (e # rest) ptr v = (e # rest)[0 := (ptr, v)]" by simp
    with True show ?thesis by (intro exI[of _ 0]) simp
  next
    case False
    with Cons.prems have "ptr \<in> fst ` set rest" by auto
    from Cons.IH[OF this] obtain i where i: "i < length rest" "fst (rest ! i) = ptr"
      "\<forall>j<i. fst (rest ! j) \<noteq> ptr" "queue_walk rest ptr v = rest[i := (ptr, v)]" by blast
    have "\<forall>j<Suc i. fst ((e # rest) ! j) \<noteq> ptr"
      using False i(3) by (auto simp: less_Suc_eq_0_disj)
    with False i show ?thesis by (intro exI[of _ "Suc i"]) simp
  qed
qed

lemma queue_walk_keys:
  "map fst (queue_walk q ptr v) = (if ptr \<in> fst ` set q then map fst q else map fst q @ [ptr])"
  by (induction q) auto

lemma queue_walk_distinct:
  "distinct (map fst q) \<Longrightarrow> distinct (map fst (queue_walk q ptr v))"
  by (simp add: queue_walk_keys)

lemma queue_all_distinct:
  "distinct (map fst (mMovementQueue s)) \<Longrightarrow>
     distinct (map fst (mMovementQueue (queue_all s requests)))"
  unfolding queue_all_def
  by (induction requests arbitrary: s)
     (simp_all add: queueObjectMovement_def queue_walk_distinct)

text \<open>
  C5.  \<open>queueObjectMovement\<close> on a queue that holds the actor overwrites the vector of
  its (first) entry in place: the entry keeps its index and every other entry, and every
  other field of the physics system, stays as it was.  On a queue that does not hold the
  actor it appends the pair at the end.  A queue with at most one entry per actor
  stays so, and so every queue built by queueing requests onto a cleared queue holds at
  most one entry per actor.
\<close>

theorem queueObjectMovement_replaces_or_appends:
  "(ptr \<in> fst ` set (mMovementQueue s) \<longrightarrow>
      (\<exists>i<length (mMovementQueue s).
          fst (mMovementQueue s ! i) = ptr \<and>
          (\<forall>j<i. fst (mMovementQueue s ! j) \<noteq> ptr) \<and>
          queueObjectMovement s ptr v = s\<lparr>mMovementQueue := (mMovementQueue s)[i := (ptr, v)]\<rparr>)) \<and>
   (ptr \<notin> fst ` set (mMovementQueue s) \<longrightarrow>
      queueObjectMovement s ptr v = s\<lparr>mMovementQueue := mMovementQueue s @ [(ptr, v)]\<rparr>) \<and>
   (distinct (map fst (mMovementQueue s)) \<longrightarrow>
      distinct (map fst (mMovementQueue (queueObjectMovement s ptr v)))) \<and>
   distinct (map fst (mMovementQueue (queue_all (clearQueuedMovement s) requests)))"
proof (intro conjI impI)
  assume "ptr \<in> fst ` set (mMovementQueue s)"
  from queue_walk_present[OF this, of v]
  show "\<exists>i<length (mMovementQueue s).
          fst (mMovementQueue s ! i) = ptr \<and>
          (\<forall>j<i. fst (mMovementQueue s ! j) \<noteq> ptr) \<and>
          queueObjectMovement s ptr v = s\<lparr>mMovementQueue := (mMovementQueue s)[i := (ptr, v)]\<rparr>"
    by (auto simp: queueObjectMovement_def)
next
  assume "ptr \<notin> fst ` set (mMovementQueue s)"
  then show "queueObjectMovement s ptr v = s\<lparr>mMovementQueue := mMovementQueue s @ [(ptr, v)]\<rparr>"
    by (simp add: queueObjectMovement_def queue_walk_absent)
next
  assume "distinct (map fst (mMovementQueue s))"
  then show "distinct (map fst (mMovementQueue (queueObjectMovement s ptr v)))"
    by (simp add: queueObjectMovement_def queue_walk_distinct)
next
  show "distinct (map fst (mMovementQueue (queue_all (clearQueuedMovement s) requests)))"
    by (rule queue_all_distinct) (simp add: clearQueuedMovement_def)
qed

theorem queueObjectMovement_replaces_or_appends_witness:
  "0 \<in> fst ` set (mMovementQueue two_queued) \<and>
   mMovementQueue (queueObjectMovement two_queued 0 (Vec3f 0 0 9))
     = [(0, Vec3f 0 0 9), (1, Vec3f 60 0 0)] \<and>
   2 \<notin> fst ` set (mMovementQueue two_queued) \<and>
   mMovementQueue (queueObjectMovement two_queued 2 (Vec3f 0 0 9))
     = [(0, Vec3f 0 60 0), (1, Vec3f 60 0 0), (2, Vec3f 0 0 9)] \<and>
   distinct (map fst (mMovementQueue two_queued)) \<and>
   distinct (map fst (mMovementQueue (queueObjectMovement two_queued 2 (Vec3f 0 0 9))))"
  using queueObjectMovement_replaces_or_appends[of 0 two_queued "Vec3f 0 0 9" "[]"]
        queueObjectMovement_replaces_or_appends[of 2 two_queued "Vec3f 0 0 9" "[]"]
  by (simp add: two_queued_def one_actor_system_def queueObjectMovement_def)

subsection \<open>Slopes of the scenes\<close>

lemma slope_side: "getSlope (Vec3f 1 0 0) = 90"
  by (simp add: getSlope_def dot_def)

lemma slope_up: "getSlope (Vec3f 0 0 1) = 0"
  by (simp add: getSlope_def dot_def)

subsection \<open>Stepping up\<close>

text \<open>
  C6.  \<open>stepMove\<close> succeeds only when its last sweep, the one going down, hits something
  (fraction below 1) whose plane slopes at most \<open>sMaxSlope\<close> and whose collider is not in
  the Actor group.  Whenever it fails it hands back \<open>position\<close> and \<open>remainingTime\<close> as
  they were; in particular it fails so whenever the collider hit by the downward sweep is
  in the Actor group.
\<close>

theorem stepMove_success_needs_ground:
  "(fst (stepMove env colobj position toMove remainingTime dynamicsWorld) \<longrightarrow>
      mFraction (downward_sweep env colobj position toMove dynamicsWorld) < 1 \<and>
      getSlope (mPlaneNormal (downward_sweep env colobj position toMove dynamicsWorld)) \<le> sMaxSlope \<and>
      collisionFilterGroup (mHitObject (downward_sweep env colobj position toMove dynamicsWorld))
        \<noteq> CollisionType_Actor) \<and>
   (\<not> fst (stepMove env colobj position toMove remainingTime dynamicsWorld) \<longrightarrow>
      stepMove env colobj position toMove remainingTime dynamicsWorld
        = (False, position, remainingTime)) \<and>
   (collisionFilterGroup (mHitObject (downward_sweep env colobj position toMove dynamicsWorld))
        = CollisionType_Actor \<longrightarrow>
      stepMove env colobj position toMove remainingTime dynamicsWorld
        = (False, position, remainingTime))"
  by (simp add: stepMove_def downward_sweep_def Let_def)

theorem stepMove_success_needs_ground_witness:
  "collisionFilterGroup (mHitObject (downward_sweep (floor_below CollisionType_Actor)
       new_btCollisionObject (Vec3f 0 0 0) (Vec3f 0 1 0) \<lparr>collisionObjects = []\<rparr>))
     = CollisionType_Actor \<and>
   stepMove (floor_below CollisionType_Actor) new_btCollisionObject (Vec3f 0 0 0) (Vec3f 0 1 0)
       (1 / 60) \<lparr>collisionObjects = []\<rparr> = (False, Vec3f 0 0 0, 1 / 60) \<and>
   fst (stepMove (floor_below CollisionType_World) new_btCollisionObject (Vec3f 0 0 0)
       (Vec3f 0 1 0) (1 / 60) \<lparr>collisionObjects = []\<rparr>) \<and>
   mFraction (downward_sweep (floor_below CollisionType_World)
       new_btCollisionObject (Vec3f 0 0 0) (Vec3f 0 1 0) \<lparr>collisionObjects = []\<rparr>) < 1 \<and>
   getSlope (mPlaneNormal (downward_sweep (floor_below CollisionType_World)
       new_btCollisionObject (Vec3f 0 0 0) (Vec3f 0 1 0) \<lparr>collisionObjects = []\<rparr>)) \<le> sMaxSlope \<and>
   collisionFilterGroup (mHitObject (downward_sweep (floor_below CollisionType_World)
       new_btCollisionObject (Vec3f 0 0 0) (Vec3f 0 1 0) \<lparr>collisionObjects = []\<rparr>))
     \<noteq> CollisionType_Actor"
proof -
  have hit_actor: "collisionFilterGroup (mHitObject (downward_sweep (floor_below CollisionType_Actor)
       new_btCollisionObject (Vec3f 0 0 0) (Vec3f 0 1 0) \<lparr>collisionObjects = []\<rparr>))
     = CollisionType_Actor"
    by (simp add: downward_sweep_def floor_below_def open_space_def no_hit_def hit_halfway_def
        plus_Vec3f_def minus_Vec3f_def sStepSizeUp_def sStepSizeDown_def Let_def)
  have stepped: "fst (stepMove (floor_below CollisionType_World) new_btCollisionObject
       (Vec3f 0 0 0) (Vec3f 0 1 0) (1 / 60) \<lparr>collisionObjects = []\<rparr>)"
    by (simp add: stepMove_def floor_below_def open_space_def no_hit_def hit_halfway_def
        plus_Vec3f_def minus_Vec3f_def divide_vec_def sStepSizeUp_def sStepSizeDown_def Let_def
        float_epsilon_def slope_up sMaxSlope_def CollisionType_World_def CollisionType_Actor_def)
  from hit_actor
    stepMove_success_needs_ground[of "floor_below CollisionType_Actor" new_btCollisionObject
      "Vec3f 0 0 0" "Vec3f 0 1 0" "1 / 60" "\<lparr>collisionObjects = []\<rparr>"]
  have refused: "stepMove (floor_below CollisionType_Actor) new_btCollisionObject (Vec3f 0 0 0)
       (Vec3f 0 1 0) (1 / 60) \<lparr>collisionObjects = []\<rparr> = (False, Vec3f 0 0 0, 1 / 60)"
    by blast
  from stepped
    stepMove_success_needs_ground[of "floor_below CollisionType_World" new_btCollisionObject
      "Vec3f 0 0 0" "Vec3f 0 1 0" "1 / 60" "\<lparr>collisionObjects = []\<rparr>"]
  have landed: "mFraction (downward_sweep (floor_below CollisionType_World)
       new_btCollisionObject (Vec3f 0 0 0) (Vec3f 0 1 0) \<lparr>collisionObjects = []\<rparr>) < 1 \<and>
   getSlope (mPlaneNormal (downward_sweep (floor_below CollisionType_World)
       new_btCollisionObject (Vec3f 0 0 0) (Vec3f 0 1 0) \<lparr>collisionObjects = []\<rparr>)) \<le> sMaxSlope \<and>
   collisionFilterGroup (mHitObject (downward_sweep (floor_below CollisionType_World)
       new_btCollisionObject (Vec3f 0 0 0) (Vec3f 0 1 0) \<lparr>collisionObjects = []\<rparr>))
     \<noteq> CollisionType_Actor"
    by blast
  from hit_actor refused stepped landed show ?thesis by blast
qed

subsection \<open>Snapping to the ground\<close>

text \<open>
  C7, as amended.  \<open>traceDown\<close>: when the capsule sweep hits nothing (fraction at least 1)
  the actor is off the ground and the position of the handle is returned.  When the sweep
  hits and the thin ray cast down from the same origin hits too, and either the ray's hit
  point lies more than 30 units from the end of the sweep or the plane of the sweep is
  steeper than \<open>sMaxSlope\<close>, the ray's hit point raised by one unit is returned and
  on-ground says whether the ray's normal slopes at most \<open>sMaxSlope\<close>.  In every other
  case of a hit, also when the ray hits nothing, the end of the sweep is returned and
  on-ground says whether the sweep's normal slopes at most \<open>sMaxSlope\<close>.
\<close>

theorem traceDown_cases:
  "(mFraction (ground_sweep env game ptr actor dynamicsWorld maxHeight) \<ge> 1 \<longrightarrow>
      traceDown env game ptr actor dynamicsWorld maxHeight
        = (refPos (game ptr), actor\<lparr>mOnGround := False\<rparr>)) \<and>
   (mFraction (ground_sweep env game ptr actor dynamicsWorld maxHeight) < 1 \<and>
    hasHit (ground_ray env game ptr dynamicsWorld maxHeight) \<and>
    (length_vec (m_hitPointWorld (ground_ray env game ptr dynamicsWorld maxHeight)
                 - mEndPos (ground_sweep env game ptr actor dynamicsWorld maxHeight)) > 30 \<or>
     getSlope (mPlaneNormal (ground_sweep env game ptr actor dynamicsWorld maxHeight)) > sMaxSlope)
    \<longrightarrow>
      traceDown env game ptr actor dynamicsWorld maxHeight
        = (m_hitPointWorld (ground_ray env game ptr dynamicsWorld maxHeight) + Vec3f 0 0 1,
           actor\<lparr>mOnGround :=
             (getSlope (m_hitNormalWorld (ground_ray env game ptr dynamicsWorld maxHeight))
                \<le> sMaxSlope)\<rparr>)) \<and>
   (mFraction (ground_sweep env game ptr actor dynamicsWorld maxHeight) < 1 \<and>
    \<not> (hasHit (ground_ray env game ptr dynamicsWorld maxHeight) \<and>
       (length_vec (m_hitPointWorld (ground_ray env game ptr dynamicsWorld maxHeight)
                    - mEndPos (ground_sweep env game ptr actor dynamicsWorld maxHeight)) > 30 \<or>
        getSlope (mPlaneNormal (ground_sweep env game ptr actor dynamicsWorld maxHeight))
          > sMaxSlope))
    \<longrightarrow>
      traceDown env game ptr actor dynamicsWorld maxHeight
        = (mEndPos (ground_sweep env game ptr actor dynamicsWorld maxHeight),
           actor\<lparr>mOnGround :=
             (getSlope (mPlaneNormal (ground_sweep env game ptr actor dynamicsWorld maxHeight))
                \<le> sMaxSlope)\<rparr>))"
  by (auto simp add: traceDown_def ground_sweep_def ground_ray_def Let_def)

theorem traceDown_cases_witness:
  "mFraction (ground_sweep open_space (\<lambda>p. mobile_ref) 0 falling_actor
                \<lparr>collisionObjects = []\<rparr> 100) \<ge> 1 \<and>
   traceDown open_space (\<lambda>p. mobile_ref) 0 falling_actor \<lparr>collisionObjects = []\<rparr> 100
     = (Vec3f 0 0 100, falling_actor\<lparr>mOnGround := False\<rparr>) \<and>
   hasHit (ground_ray (steep_contact True) (\<lambda>p. mobile_ref) 0 \<lparr>collisionObjects = []\<rparr> 100) \<and>
   getSlope (mPlaneNormal (ground_sweep (steep_contact True) (\<lambda>p. mobile_ref) 0 falling_actor
                \<lparr>collisionObjects = []\<rparr> 100)) > sMaxSlope \<and>
   traceDown (steep_contact True) (\<lambda>p. mobile_ref) 0 falling_actor \<lparr>collisionObjects = []\<rparr> 100
     = (Vec3f 0 0 1, falling_actor\<lparr>mOnGround := True\<rparr>) \<and>
   mFraction (ground_sweep flat_contact (\<lambda>p. mobile_ref) 0 falling_actor
                \<lparr>collisionObjects = []\<rparr> 100) < 1 \<and>
   traceDown flat_contact (\<lambda>p. mobile_ref) 0 falling_actor \<lparr>collisionObjects = []\<rparr> 100
     = (Vec3f 0 0 50, falling_actor\<lparr>mOnGround := True\<rparr>)"
proof -
  have a: "mFraction (ground_sweep open_space (\<lambda>p. mobile_ref) 0 falling_actor
                \<lparr>collisionObjects = []\<rparr> 100) \<ge> 1"
    by (simp add: ground_sweep_def open_space_def no_hit_def)
  have b: "mFraction (ground_sweep (steep_contact True) (\<lambda>p. mobile_ref) 0 falling_actor
                \<lparr>collisionObjects = []\<rparr> 100) < 1 \<and>
      hasHit (ground_ray (steep_contact True) (\<lambda>p. mobile_ref) 0 \<lparr>collisionObjects = []\<rparr> 100) \<and>
      getSlope (mPlaneNormal (ground_sweep (steep_contact True) (\<lambda>p. mobile_ref) 0 falling_actor
                \<lparr>collisionObjects = []\<rparr> 100)) > sMaxSlope"
    by (simp add: ground_sweep_def ground_ray_def steep_contact_def open_space_def
        hit_halfway_def slope_side sMaxSlope_def)
  have c: "mFraction (ground_sweep flat_contact (\<lambda>p. mobile_ref) 0 falling_actor
                \<lparr>collisionObjects = []\<rparr> 100) < 1 \<and>
      \<not> hasHit (ground_ray flat_contact (\<lambda>p. mobile_ref) 0 \<lparr>collisionObjects = []\<rparr> 100)"
    by (simp add: ground_sweep_def ground_ray_def flat_contact_def open_space_def
        hit_halfway_def)
  have vals: "refPos mobile_ref = Vec3f 0 0 100"
    "m_hitPointWorld (ground_ray (steep_contact True) (\<lambda>p. mobile_ref) 0
        \<lparr>collisionObjects = []\<rparr> 100) + Vec3f 0 0 1 = Vec3f 0 0 1"
    "getSlope (m_hitNormalWorld (ground_ray (steep_contact True) (\<lambda>p. mobile_ref) 0
        \<lparr>collisionObjects = []\<rparr> 100)) \<le> sMaxSlope"
    "mEndPos (ground_sweep flat_contact (\<lambda>p. mobile_ref) 0 falling_actor
        \<lparr>collisionObjects = []\<rparr> 100) = Vec3f 0 0 50"
    "getSlope (mPlaneNormal (ground_sweep flat_contact (\<lambda>p. mobile_ref) 0 falling_actor
        \<lparr>collisionObjects = []\<rparr> 100)) \<le> sMaxSlope"
    by (simp_all add: ground_sweep_def ground_ray_def steep_contact_def flat_contact_def
        open_space_def hit_halfway_def mobile_ref_def slope_up sMaxSlope_def plus_Vec3f_def
        minus_Vec3f_def divide_vec_def)
  show ?thesis
    using a b c vals
      traceDown_cases[of open_space "\<lambda>p. mobile_ref" 0 falling_actor
        "\<lparr>collisionObjects = []\<rparr>" 100]
      traceDown_cases[of "steep_contact True" "\<lambda>p. mobile_ref" 0 falling_actor
        "\<lparr>collisionObjects = []\<rparr>" 100]
      traceDown_cases[of flat_contact "\<lambda>p. mobile_ref" 0 falling_actor
        "\<lparr>collisionObjects = []\<rparr>" 100]
    by simp
qed

text \<open>
  C7 as it was stated takes the ray's hit point whenever the plane of the sweep is too
  steep.  On a vertical face that the thin ray misses, \<open>traceDown\<close> returns the end of the
  sweep, \<open>(0, 0, 50)\<close>, and not the ray's (unset) hit point raised by one unit.
\<close>

theorem traceDown_steep_without_ray_counterexample:
  "mFraction (ground_sweep (steep_contact False) (\<lambda>p. mobile_ref) 0 falling_actor
                \<lparr>collisionObjects = []\<rparr> 100) < 1 \<and>
   getSlope (mPlaneNormal (ground_sweep (steep_contact False) (\<lambda>p. mobile_ref) 0 falling_actor
                \<lparr>collisionObjects = []\<rparr> 100)) > sMaxSlope \<and>
   m_hitPointWorld (ground_ray (steep_contact False) (\<lambda>p. mobile_ref) 0
                \<lparr>collisionObjects = []\<rparr> 100) + Vec3f 0 0 1 = Vec3f 0 0 1 \<and>
   fst (traceDown (steep_contact False) (\<lambda>p. mobile_ref) 0 falling_actor
                \<lparr>collisionObjects = []\<rparr> 100) = Vec3f 0 0 50 \<and>
   \<not> mOnGround (snd (traceDown (steep_contact False) (\<lambda>p. mobile_ref) 0 falling_actor
                \<lparr>collisionObjects = []\<rparr> 100))"
  by (simp add: traceDown_def ground_sweep_def ground_ray_def steep_contact_def open_space_def
      hit_halfway_def mobile_ref_def slope_side sMaxSlope_def plus_Vec3f_def minus_Vec3f_def
      divide_vec_def Let_def)

subsection \<open>Objects without a collision shape\<close>

text \<open>
  C8.  When the shape manager's instance has no collision shape, \<open>addObject\<close> leaves the
  physics system exactly as it was: no object record, nothing new in the collision world,
  and an entity that was not tracked in the object map is not tracked afterwards.
\<close>

theorem addObject_without_shape:
  "getCollisionShape (createInstance env mesh) = None \<Longrightarrow>
     addObject env game s ptr mesh = s \<and>
     (mObjects s ptr = None \<longrightarrow> mObjects (addObject env game s ptr mesh) ptr = None)"
  by (simp add: addObject_def)

theorem addObject_without_shape_witness:
  "getCollisionShape (createInstance open_space ''meshes/marker.nif'') = None \<and>
   mObjects one_actor_system 5 = None \<and>
   addObject open_space (\<lambda>p. mobile_ref) one_actor_system 5 ''meshes/marker.nif''
     = one_actor_system \<and>
   mObjects (addObject open_space (\<lambda>p. mobile_ref) one_actor_system 5 ''meshes/marker.nif'') 5
     = None"
  using addObject_without_shape[of open_space "''meshes/marker.nif''" "\<lambda>p. mobile_ref"
          one_actor_system 5]
  by (simp add: open_space_def one_actor_system_def)

subsection \<open>Terrain tiles\<close>

lemma heights_loop_scan:
  "1 \<le> i \<Longrightarrow> nat i \<le> n \<Longrightarrow> n \<le> length heights \<Longrightarrow> sqrtVerts * sqrtVerts = real n \<Longrightarrow>
     heights_loop heights sqrtVerts i minh maxh =
       Some (Min (insert minh (set (drop (nat i) (take n heights)))),
             Max (insert maxh (set (drop (nat i) (take n heights)))))"
proof (induction heights sqrtVerts i minh maxh rule: heights_loop.induct)
  case (1 heights sqrtVerts i minh maxh)
  show ?case
  proof (cases "nat i < n")
    case True
    with "1.prems" have lt: "real_of_int i < sqrtVerts * sqrtVerts" by simp
    from True "1.prems" have inb: "0 \<le> i \<and> nat i < length heights" by simp
    let ?h = "heights ! nat i"
    have dr: "drop (nat i) (take n heights) = ?h # drop (nat (i + 1)) (take n heights)"
      using True "1.prems" inb Cons_nth_drop_Suc[of "nat i" "take n heights", symmetric]
      by (simp add: nat_add_distrib)
    have step: "heights_loop heights sqrtVerts i minh maxh =
        heights_loop heights sqrtVerts (i + 1) (if ?h < minh then ?h else minh)
          (if ?h > maxh then ?h else maxh)"
      using lt inb by (subst heights_loop.simps) (simp add: Let_def)
    have ih: "heights_loop heights sqrtVerts (i + 1) (if ?h < minh then ?h else minh)
          (if ?h > maxh then ?h else maxh) =
        Some (Min (insert (if ?h < minh then ?h else minh) (set (drop (nat (i + 1)) (take n heights)))),
              Max (insert (if ?h > maxh then ?h else maxh) (set (drop (nat (i + 1)) (take n heights)))))"
      using "1.IH"[OF lt inb refl refl refl] True "1.prems" by (simp add: nat_add_distrib)
    have mn: "Min (insert (if ?h < minh then ?h else minh) S) = Min (insert minh (insert ?h S))"
      if "finite S" for S
      using that by (cases "S = {}") (auto simp: min_def)
    have mx: "Max (insert (if ?h > maxh then ?h else maxh) S) = Max (insert maxh (insert ?h S))"
      if "finite S" for S
      using that by (cases "S = {}") (auto simp: max_def)
    show ?thesis
      unfolding step ih dr by (simp add: mn mx)
  next
    case False
    with "1.prems" have "nat i = n" by simp
    with "1.prems" have "\<not> real_of_int i < sqrtVerts * sqrtVerts" by simp
    then have "heights_loop heights sqrtVerts i minh maxh = Some (minh, maxh)"
      by (subst heights_loop.simps) simp
    with \<open>nat i = n\<close> show ?thesis by simp
  qed
qed

text \<open>
  C9.  A \<open>HeightField\<close> built from an array that holds the \<open>N * N\<close> heights of a tile
  (\<open>sqrtVerts = N\<close>, at least 1) has a collision object whose world transform is the
  identity rotation with origin \<open>((x + 0.5) * triSize * (N - 1), (y + 0.5) * triSize * (N - 1),
  (min + max) / 2)\<close>, for the least and the greatest of those \<open>N * N\<close> heights.
\<close>

theorem HeightField_world_transform:
  assumes "1 \<le> N" and "N * N \<le> length heights"
  shows "\<exists>hf. HeightField_new heights x y triSize (real N) = Some hf \<and>
           worldTransform (mCollisionObject hf) =
             \<lparr>rotation = quat_identity,
              origin = Vec3f ((real_of_int x + 0.5) * triSize * (real N - 1))
                             ((real_of_int y + 0.5) * triSize * (real N - 1))
                             ((Min (set (take (N * N) heights)) +
                               Max (set (take (N * N) heights))) / 2)\<rparr>"
proof -
  from assms have pos: "0 < N * N" by simp
  with assms obtain h0 rest where hs: "heights = h0 # rest" by (cases heights) auto
  obtain m where m: "N * N = Suc m" using pos by (cases "N * N") auto
  have tk: "take (N * N) heights = h0 # drop (nat 1) (take (N * N) heights)"
    by (simp add: hs m drop_Suc)
  have sq: "real N * real N = real (N * N)" by simp
  have "heights_loop heights (real N) 1 h0 h0 =
      Some (Min (insert h0 (set (drop (nat 1) (take (N * N) heights)))),
            Max (insert h0 (set (drop (nat 1) (take (N * N) heights)))))"
    using pos assms(2) by (intro heights_loop_scan[OF _ _ _ sq]) auto
  also have "insert h0 (set (drop (nat 1) (take (N * N) heights))) = set (take (N * N) heights)"
    by (subst (2) tk) simp
  finally have loop: "heights_loop heights (real N) 1 h0 h0 =
      Some (Min (set (take (N * N) heights)), Max (set (take (N * N) heights)))" .
  show ?thesis
    unfolding HeightField_new_def hs[symmetric]
    using loop by (simp add: hs Let_def new_btCollisionObject_def add.commute)
qed

theorem HeightField_world_transform_witness:
  "(1::nat) \<le> 2 \<and> (2::nat) * 2 \<le> length [1, 5, 3, 2 :: real] \<and>
   (\<exists>hf. HeightField_new [1, 5, 3, 2] 0 0 128 2 = Some hf \<and>
         worldTransform (mCollisionObject hf)
           = \<lparr>rotation = quat_identity, origin = Vec3f 64 64 3\<rparr>)"
  using HeightField_world_transform[of 2 "[1, 5, 3, 2]" 0 0 128]
  by simp

subsection \<open>Collision mode without a player actor\<close>

text \<open>
  C10.  When no actor is registered for the player, \<open>toggleCollisionMode\<close> returns false
  and the physics system, every actor's collision mode included, is what it was.
\<close>

theorem toggleCollisionMode_without_player:
  "mActors s player = None \<Longrightarrow> toggleCollisionMode player s = (False, s)"
  by (simp add: toggleCollisionMode_def)

theorem toggleCollisionMode_without_player_witness:
  "mActors one_actor_system 7 = None \<and>
   toggleCollisionMode 7 one_actor_system = (False, one_actor_system)"
  using toggleCollisionMode_without_player[of one_actor_system 7]
  by (simp add: one_actor_system_def)

subsection \<open>Vector facts\<close>

lemma length2_nonneg: "0 \<le> length2 v"
  by (simp add: length2_def)

lemma length2_scale: "length2 (scale v c) = c * c * length2 v"
  by (simp add: length2_def scale_def algebra_simps)

lemma length2_reflect_down: "length2 (reflect u (Vec3f 0 0 (- 1))) = length2 u"
  by (simp add: length2_def reflect_def scale_def dot_def minus_Vec3f_def algebra_simps)

lemma normalize_fst: "fst (normalize v) = length_vec v"
  by (simp add: normalize_def Let_def)

lemma length2_unit:
  assumes "0 < length_vec v"
  shows "length2 (scale v (1 / length_vec v)) = 1"
proof -
  define n where "n = length_vec v"
  have sq: "length2 v = n * n"
    by (simp add: n_def length_vec_def length2_nonneg)
  from assms have "n \<noteq> 0" by (simp add: n_def)
  then have "1 / n * (1 / n) * (n * n) = 1" by simp
  then show ?thesis
    unfolding length2_scale n_def[symmetric] sq .
qed

lemma length_vec_unit: "length2 w = 1 \<Longrightarrow> length_vec w = 1"
  by (simp add: length_vec_def)

lemma swim_clamp_eq: "swim_clamp v = Vec3f (vx v) (vy v) 0"
proof (cases "0 < length_vec v")
  case True
  let ?u = "scale v (1 / length_vec v)"
  have n1: "normalize v = (length_vec v, ?u)"
    using True by (simp add: normalize_def Let_def)
  have "length2 (reflect ?u (Vec3f 0 0 (- 1))) = 1"
    unfolding length2_reflect_down by (rule length2_unit[OF True])
  then have "length_vec (reflect ?u (Vec3f 0 0 (- 1))) = 1"
    by (rule length_vec_unit)
  then have n2: "snd (normalize (reflect ?u (Vec3f 0 0 (- 1)))) = reflect ?u (Vec3f 0 0 (- 1))"
    by (cases "reflect ?u (Vec3f 0 0 (- 1))") (simp add: normalize_def Let_def scale_def)
  have "swim_clamp v = scale (slide (reflect ?u (Vec3f 0 0 (- 1))) (Vec3f 0 0 (- 1))) (length_vec v)"
    by (simp add: swim_clamp_def n1 n2 Let_def)
  also have "\<dots> = Vec3f (vx v) (vy v) 0"
    using True
    by (simp add: slide_def project_def reflect_def scale_def dot_def minus_Vec3f_def)
  finally show ?thesis .
next
  case False
  have "0 \<le> length_vec v" by (simp add: length_vec_def length2_nonneg)
  with False have z: "length_vec v = 0" by simp
  then have n1: "normalize v = (0, v)" by (simp add: normalize_def Let_def)
  from z have "length2 v = 0" by (simp add: length_vec_def)
  then have "vx v = 0 \<and> vy v = 0 \<and> vz v = 0"
    by (simp add: length2_def add_nonneg_eq_0_iff)
  then have v0: "v = Vec3f 0 0 0" by (cases v) simp
  have n0: "normalize (Vec3f 0 0 0) = (0, Vec3f 0 0 0)"
    using n1 by (simp add: v0)
  show ?thesis
    unfolding v0 by (simp add: swim_clamp_def n0 Let_def scale_def)
qed

lemma sqrt_square: "0 \<le> a \<Longrightarrow> sqrt (a * a) = a"
  by simp

lemma sqrt_3600: "sqrt 3600 = 60"
  using sqrt_square[of 60] by simp

lemma sqrt_32400: "sqrt 32400 = 180"
  using sqrt_square[of 180] by simp

lemma sqrt_90000: "sqrt 90000 = 300"
  using sqrt_square[of 300] by simp

lemma float_max_pos: "0 < float_max"
  by (simp add: float_max_def)

subsection \<open>The swim ceiling\<close>

text \<open>
  C4, as amended.  In an iteration of the loop of \<open>move\<close> where the actor is not flying,
  the current position lies strictly below the swim level and \<open>nextpos\<close> lies above it,
  the velocity \<open>v\<close> is replaced by \<open>slide(r, down) * |v|\<close>, where \<open>r\<close> is the normalised
  reflection about \<open>down = (0, 0, -1)\<close> of the normalised \<open>v\<close>.  That vector is
  \<open>(v.x, v.y, 0)\<close>: horizontal, and strictly shorter than \<open>v\<close>.  The iteration continues
  with position and remaining time as they were.
\<close>

theorem swim_ceiling_clamp:
  assumes "\<not> l_isFlying loc"
    and "vz (s_newPosition st) < l_swimlevel loc"
    and "vz (s_newPosition st + scale (s_velocity st) (s_remainingTime st)) > l_swimlevel loc"
  shows "loop_body env loc st =
           Continue (st\<lparr>s_velocity := Vec3f (vx (s_velocity st)) (vy (s_velocity st)) 0\<rparr>) \<and>
         Vec3f (vx (s_velocity st)) (vy (s_velocity st)) 0 =
           scale (slide (snd (normalize (reflect (snd (normalize (s_velocity st)))
                                           (Vec3f 0 0 (- 1)))))
                        (Vec3f 0 0 (- 1)))
                 (length_vec (s_velocity st)) \<and>
         length_vec (Vec3f (vx (s_velocity st)) (vy (s_velocity st)) 0)
           < length_vec (s_velocity st)"
proof -
  have body: "loop_body env loc st =
      Continue (st\<lparr>s_velocity := Vec3f (vx (s_velocity st)) (vy (s_velocity st)) 0\<rparr>)"
    using assms by (simp add: loop_body_def Let_def swim_clamp_eq)
  have formula: "Vec3f (vx (s_velocity st)) (vy (s_velocity st)) 0 =
      scale (slide (snd (normalize (reflect (snd (normalize (s_velocity st)))
                                      (Vec3f 0 0 (- 1)))))
                   (Vec3f 0 0 (- 1)))
            (length_vec (s_velocity st))"
    using swim_clamp_eq[of "s_velocity st", symmetric]
    by (simp add: swim_clamp_def Let_def split_def normalize_fst)
  from assms(2,3) have "vz (s_velocity st) * s_remainingTime st > 0"
    by (simp add: plus_Vec3f_def scale_def)
  then have "vz (s_velocity st) \<noteq> 0" by auto
  then have "vz (s_velocity st) * vz (s_velocity st) > 0"
    by (metis linorder_neqE_linordered_idom mult_neg_neg mult_pos_pos)
  then have "length2 (Vec3f (vx (s_velocity st)) (vy (s_velocity st)) 0) < length2 (s_velocity st)"
    by (simp add: length2_def)
  then have shorter: "length_vec (Vec3f (vx (s_velocity st)) (vy (s_velocity st)) 0)
      < length_vec (s_velocity st)"
    by (simp add: length_vec_def)
  from body formula shorter show ?thesis by blast
qed

theorem swim_ceiling_clamp_witness:
  "\<not> l_isFlying swimming_locals \<and>
   vz (s_newPosition swimming_state) < l_swimlevel swimming_locals \<and>
   vz (s_newPosition swimming_state + scale (s_velocity swimming_state)
         (s_remainingTime swimming_state)) > l_swimlevel swimming_locals \<and>
   loop_body open_space swimming_locals swimming_state
     = Continue (swimming_state\<lparr>s_velocity := Vec3f 180 0 0\<rparr>) \<and>
   s_remainingTime swimming_state = 1 / 60"
proof -
  have a: "\<not> l_isFlying swimming_locals" by (simp add: swimming_locals_def)
  have b: "vz (s_newPosition swimming_state) < l_swimlevel swimming_locals"
    by (simp add: swimming_locals_def swimming_state_def)
  have c: "vz (s_newPosition swimming_state + scale (s_velocity swimming_state)
         (s_remainingTime swimming_state)) > l_swimlevel swimming_locals"
    by (simp add: swimming_locals_def swimming_state_def plus_Vec3f_def scale_def)
  have v: "Vec3f (vx (s_velocity swimming_state)) (vy (s_velocity swimming_state)) 0
      = Vec3f 180 0 0" by (simp add: swimming_state_def)
  have t: "s_remainingTime swimming_state = 1 / 60" by (simp add: swimming_state_def)
  from swim_ceiling_clamp[OF a b c, of open_space] a b c t show ?thesis
    unfolding v by blast
qed

text \<open>
  C4 as it was stated fails in three ways.  A swimmer with velocity \<open>(180, 0, 240)\<close>, of
  length 300, continues with \<open>(180, 0, 0)\<close>, of length 180: the magnitude is not kept, and
  the vector is not \<open>slide(reflect(v, down), down) * |v| = (54000, 0, 0)\<close>.  And at a
  position exactly at the swim level (\<open>p.z \<le> swimlevel\<close>, \<open>nextpos.z > swimlevel\<close>, not
  flying) the velocity is not replaced: the sweep is made and the actor moves up.
\<close>

theorem swim_ceiling_clamp_counterexample:
  "loop_body open_space swimming_locals swimming_state
     = Continue (swimming_state\<lparr>s_velocity := Vec3f 180 0 0\<rparr>) \<and>
   length_vec (Vec3f 180 0 0) = 180 \<and>
   length_vec (s_velocity swimming_state) = 300 \<and>
   scale (slide (reflect (s_velocity swimming_state) (Vec3f 0 0 (- 1))) (Vec3f 0 0 (- 1)))
     (length_vec (s_velocity swimming_state)) = Vec3f 54000 0 0 \<and>
   \<not> l_isFlying swimming_locals \<and>
   vz (s_newPosition surface_state) \<le> l_swimlevel swimming_locals \<and>
   vz (s_newPosition surface_state + scale (s_velocity surface_state)
         (s_remainingTime surface_state)) > l_swimlevel swimming_locals \<and>
   loop_body open_space swimming_locals surface_state
     = Break (surface_state\<lparr>s_newPosition := Vec3f 3 0 4\<rparr>)"
proof -
  have a: "loop_body open_space swimming_locals swimming_state
     = Continue (swimming_state\<lparr>s_velocity := Vec3f 180 0 0\<rparr>)"
    by (simp add: loop_body_def swim_clamp_eq swimming_locals_def swimming_state_def
        plus_Vec3f_def scale_def Let_def)
  have b: "length_vec (Vec3f 180 0 0) = 180" "length_vec (s_velocity swimming_state) = 300"
    by (simp_all add: length_vec_def length2_def swimming_state_def sqrt_32400 sqrt_90000)
  have c: "scale (slide (reflect (s_velocity swimming_state) (Vec3f 0 0 (- 1))) (Vec3f 0 0 (- 1)))
     (length_vec (s_velocity swimming_state)) = Vec3f 54000 0 0"
    unfolding b
    by (simp add: swimming_state_def slide_def project_def reflect_def scale_def dot_def
        minus_Vec3f_def)
  have d: "\<not> l_isFlying swimming_locals"
    "vz (s_newPosition surface_state) \<le> l_swimlevel swimming_locals"
    "vz (s_newPosition surface_state + scale (s_velocity surface_state)
         (s_remainingTime surface_state)) > l_swimlevel swimming_locals"
    by (simp_all add: swimming_locals_def surface_state_def plus_Vec3f_def scale_def)
  have e: "loop_body open_space swimming_locals surface_state
     = Break (surface_state\<lparr>s_newPosition := Vec3f 3 0 4\<rparr>)"
    by (simp add: loop_body_def swimming_locals_def surface_state_def open_space_def no_hit_def
        plus_Vec3f_def minus_Vec3f_def scale_def length2_def Let_def)
  from a b c d e show ?thesis by blast
qed

subsection \<open>Sliding along an obstacle\<close>

lemma stepMove_failure_keeps:
  "\<not> fst (stepMove env colobj position toMove remainingTime dynamicsWorld) \<Longrightarrow>
     stepMove env colobj position toMove remainingTime dynamicsWorld
       = (False, position, remainingTime)"
  by (simp add: stepMove_def Let_def split: if_splits)

lemma step_branch_failed:
  assumes "step_up_fails env loc st"
  shows "step_branch env loc st tracer = slide_branch loc st tracer"
proof -
  from assms have f1: "stepMove env (l_colobj loc) (s_newPosition st)
              (scale (s_velocity st) (s_remainingTime st)) (s_remainingTime st)
              (l_dynamicsWorld loc) = (False, s_newPosition st, s_remainingTime st)"
    and f2: "stepMove env (l_colobj loc) (s_newPosition st)
              (scale (snd (normalize (s_velocity st))) 10) (s_remainingTime st)
              (l_dynamicsWorld loc) = (False, s_newPosition st, s_remainingTime st)"
    by (simp_all add: step_up_fails_def stepMove_failure_keeps)
  show ?thesis
    by (simp add: step_branch_def f1 f2 Let_def)
qed

lemma slide_velocity_eq:
  "slide_velocity v n = scale (slide (snd (normalize (reflect v n))) n) (length_vec v)"
  by (simp add: slide_velocity_def Let_def split_def normalize_fst)

text \<open>
  C2, as amended.  In an iteration of the loop of \<open>move\<close> in which the sweep hits an
  obstacle and both step attempts fail, the slide velocity
  \<open>v' = slide(normalised reflect(v, n), n) * |v|\<close> is computed.  The loop breaks when
  \<open>|v' - v|\<^sup>2 < 0.01\<close> or when the dot product of the current velocity \<open>v\<close>, the one
  the iteration started with, and the initial velocity is at most 0.  Otherwise it
  continues with \<open>v'\<close>, whose z component is clamped to at most 0 unless the position is
  below the swim level or the actor flies.
\<close>

theorem slide_after_failed_step:
  assumes "\<not> (vz (s_newPosition st) < l_swimlevel loc \<and> \<not> l_isFlying loc \<and>
              vz (nextpos_of st) > l_swimlevel loc)"
    and "length2 (s_newPosition st - nextpos_of st) > 0.0001"
    and "mFraction (obstacle_sweep env loc st) < 1"
    and "step_up_fails env loc st"
  shows "loop_body env loc st =
     (let n = mPlaneNormal (obstacle_sweep env loc st);
          v' = scale (slide (snd (normalize (reflect (s_velocity st) n))) n)
                     (length_vec (s_velocity st))
      in if length2 (v' - s_velocity st) < 0.01 \<or>
            dot (s_velocity st) (l_origVelocity loc) \<le> 0
         then Break st
         else Continue (st\<lparr>s_velocity :=
                 (if vz (s_newPosition st) < l_swimlevel loc \<or> l_isFlying loc then v'
                  else Vec3f (vx v') (vy v') (min (vz v') 0))\<rparr>))"
proof -
  from assms(1) have noclamp: "\<not> (vz (s_newPosition st) < l_swimlevel loc \<and> \<not> l_isFlying loc \<and>
      vz (s_newPosition st + scale (s_velocity st) (s_remainingTime st)) > l_swimlevel loc \<and>
      vz (s_newPosition st) \<le> l_swimlevel loc)"
    by (auto simp add: nextpos_of_def)
  have "loop_body env loc st = step_branch env loc st (obstacle_sweep env loc st)"
    using noclamp assms(2,3)
    by (auto simp add: loop_body_def obstacle_sweep_def nextpos_of_def Let_def)
  also have "\<dots> = slide_branch loc st (obstacle_sweep env loc st)"
    by (rule step_branch_failed[OF assms(4)])
  finally show ?thesis
    by (auto simp add: slide_branch_def slide_velocity_eq Let_def)
qed

lemma normalize_60: "normalize (Vec3f 60 0 0) = (60, Vec3f 1 0 0)"
  by (simp add: normalize_def length_vec_def length2_def sqrt_3600 scale_def)

lemma normalize_m60: "normalize (Vec3f (- 60) 0 0) = (60, Vec3f (- 1) 0 0)"
  by (simp add: normalize_def length_vec_def length2_def sqrt_3600 scale_def)

lemma wall_blocks:
  "stepMove wall_ahead c (Vec3f 0 0 65) (Vec3f (1 + a) 0 0) t w = (False, Vec3f 0 0 65, t)" if "0 \<le> a"
  using that
  by (simp add: stepMove_def wall_ahead_def open_space_def no_hit_def plus_Vec3f_def
      sStepSizeUp_def float_epsilon_def Let_def)

lemma wall_fails: "step_up_fails wall_ahead walking_locals walking_state"
  using wall_blocks[of 0] wall_blocks[of 9]
  by (simp add: step_up_fails_def walking_locals_def walking_state_def normalize_60 scale_def)

lemma wall_sweep:
  "obstacle_sweep wall_ahead walking_locals walking_state =
     \<lparr>mEndPos = Vec3f 0 0 65, mPlaneNormal = Vec3f (- 1) 0 0,
      mHitObject = new_btCollisionObject\<lparr>collisionFilterGroup := CollisionType_World\<rparr>,
      mFraction = 0\<rparr>"
  by (simp add: obstacle_sweep_def nextpos_of_def wall_ahead_def open_space_def
      walking_locals_def walking_state_def plus_Vec3f_def scale_def)

lemma wall_normal:
  "mPlaneNormal (obstacle_sweep wall_ahead walking_locals walking_state) = Vec3f (- 1) 0 0"
  by (simp add: wall_sweep)

lemma walking_velocity: "s_velocity walking_state = Vec3f 60 0 0"
  by (simp add: walking_state_def)

lemma wall_slide: "slide_velocity (Vec3f 60 0 0) (Vec3f (- 1) 0 0) = Vec3f 0 0 0"
proof -
  have r: "reflect (Vec3f 60 0 0) (Vec3f (- 1) 0 0) = Vec3f (- 60) 0 0"
    by (simp add: reflect_def scale_def dot_def minus_Vec3f_def)
  show ?thesis
    by (simp add: slide_velocity_def normalize_60 r normalize_m60 slide_def project_def
        scale_def dot_def minus_Vec3f_def Let_def)
qed

theorem slide_after_failed_step_witness:
  "\<not> (vz (s_newPosition walking_state) < l_swimlevel walking_locals \<and>
      \<not> l_isFlying walking_locals \<and>
      vz (nextpos_of walking_state) > l_swimlevel walking_locals) \<and>
   length2 (s_newPosition walking_state - nextpos_of walking_state) > 0.0001 \<and>
   mFraction (obstacle_sweep wall_ahead walking_locals walking_state) < 1 \<and>
   step_up_fails wall_ahead walking_locals walking_state \<and>
   loop_body wall_ahead walking_locals walking_state
     = Continue (walking_state\<lparr>s_velocity := Vec3f 0 0 0\<rparr>)"
proof -
  have a: "\<not> (vz (s_newPosition walking_state) < l_swimlevel walking_locals \<and>
      \<not> l_isFlying walking_locals \<and>
      vz (nextpos_of walking_state) > l_swimlevel walking_locals)"
    by (simp add: walking_locals_def walking_state_def)
  have b: "length2 (s_newPosition walking_state - nextpos_of walking_state) > 0.0001"
    by (simp add: nextpos_of_def walking_state_def plus_Vec3f_def minus_Vec3f_def scale_def
        length2_def)
  have c: "mFraction (obstacle_sweep wall_ahead walking_locals walking_state) < 1"
    by (simp add: wall_sweep)
  have v: "scale (slide (snd (normalize (reflect (s_velocity walking_state)
                (mPlaneNormal (obstacle_sweep wall_ahead walking_locals walking_state)))))
             (mPlaneNormal (obstacle_sweep wall_ahead walking_locals walking_state)))
           (length_vec (s_velocity walking_state)) = Vec3f 0 0 0"
    unfolding wall_normal walking_velocity slide_velocity_eq[symmetric] by (rule wall_slide)
  have "loop_body wall_ahead walking_locals walking_state
     = Continue (walking_state\<lparr>s_velocity := Vec3f 0 0 0\<rparr>)"
    unfolding slide_after_failed_step[OF a b c wall_fails] Let_def v
    by (simp add: walking_state_def walking_locals_def minus_Vec3f_def length2_def dot_def)
  with a b c wall_fails show ?thesis by blast
qed

text \<open>
  C2 as it was stated breaks the loop when the new velocity \<open>v'\<close> has turned against the
  initial one.  Walking straight into a wall, \<open>v = v\<^sub>0 = (60, 0, 0)\<close> and
  \<open>n = (-1, 0, 0)\<close>, gives \<open>v' = (0, 0, 0)\<close> with \<open>v' \<cdot> v\<^sub>0 = 0\<close> and
  \<open>|v' - v|\<^sup>2 = 3600\<close>; the loop does not break but continues with \<open>v'\<close>.
\<close>

theorem slide_turned_around_counterexample:
  "mFraction (obstacle_sweep wall_ahead walking_locals walking_state) < 1 \<and>
   step_up_fails wall_ahead walking_locals walking_state \<and>
   slide_velocity (s_velocity walking_state)
      (mPlaneNormal (obstacle_sweep wall_ahead walking_locals walking_state)) = Vec3f 0 0 0 \<and>
   dot (Vec3f 0 0 0) (l_origVelocity walking_locals) \<le> 0 \<and>
   loop_body wall_ahead walking_locals walking_state
     = Continue (walking_state\<lparr>s_velocity := Vec3f 0 0 0\<rparr>)"
proof -
  have a: "mFraction (obstacle_sweep wall_ahead walking_locals walking_state) < 1"
    by (simp add: wall_sweep)
  have b: "slide_velocity (s_velocity walking_state)
      (mPlaneNormal (obstacle_sweep wall_ahead walking_locals walking_state)) = Vec3f 0 0 0"
    unfolding wall_normal walking_velocity by (rule wall_slide)
  have c: "dot (Vec3f 0 0 0) (l_origVelocity walking_locals) \<le> 0"
    by (simp add: dot_def)
  have "loop_body wall_ahead walking_locals walking_state
      = step_branch wall_ahead walking_locals walking_state
          (obstacle_sweep wall_ahead walking_locals walking_state)"
    unfolding wall_sweep
    by (simp add: loop_body_def wall_ahead_def open_space_def walking_locals_def
        walking_state_def plus_Vec3f_def minus_Vec3f_def scale_def length2_def Let_def)
  also have "\<dots> = slide_branch walking_locals walking_state
          (obstacle_sweep wall_ahead walking_locals walking_state)"
    by (rule step_branch_failed[OF wall_fails])
  also have "\<dots> = Continue (walking_state\<lparr>s_velocity := Vec3f 0 0 0\<rparr>)"
    unfolding wall_sweep
    by (simp add: slide_branch_def walking_state_def walking_locals_def wall_slide
        minus_Vec3f_def length2_def dot_def Let_def)
  finally have d: "loop_body wall_ahead walking_locals walking_state
     = Continue (walking_state\<lparr>s_velocity := Vec3f 0 0 0\<rparr>)" .
  from a wall_fails b c d show ?thesis by blast
qed

subsection \<open>The inertial force after \<open>move\<close>\<close>

lemma move_loop_break:
  "iterations < sMaxIterations \<Longrightarrow> s_remainingTime st > 0.01 \<Longrightarrow>
     loop_body env loc st = Break st' \<Longrightarrow> move_loop env loc iterations st = st'"
  by (subst move_loop.simps) simp

lemma integrate_gravity_ground:
  "mOnGround (integrate_gravity a og newPos swimlvl fl inertia time sf) = og"
  by (simp add: integrate_gravity_def Let_def)

lemma integrate_gravity_inertia:
  "mInertialForce (integrate_gravity a og newPos swimlvl fl inertia time sf) =
     (if og \<or> vz newPos < swimlvl \<or> fl then Vec3f 0 0 0 else fall inertia time sf)"
  by (simp add: integrate_gravity_def fall_def Let_def algebra_simps)

lemma initial_velocity_inertia:
  "vz position < swimlvl \<or> fl \<or> \<not> vz (rotateYaw env (refRot2 ref) movement) > 0 \<Longrightarrow>
     snd (initial_velocity env ref a movement position swimlvl fl) = mInertialForce a"
  by (auto simp add: initial_velocity_def Let_def)

lemma ground_probe_kept:
  "\<not> (\<not> (vz inertia > 0) \<and> \<not> (vz newPos < l_swimlevel loc) \<and>
      mFraction (doTrace env (l_colobj loc) newPos
          (newPos - (if mOnGround a then Vec3f 0 0 (sStepSizeDown + 2) else Vec3f 0 0 2))
          (l_dynamicsWorld loc)) < 1 \<and>
      collisionFilterGroup (mHitObject (doTrace env (l_colobj loc) newPos
          (newPos - (if mOnGround a then Vec3f 0 0 (sStepSizeDown + 2) else Vec3f 0 0 2))
          (l_dynamicsWorld loc))) = CollisionType_Actor \<and>
      length2 (Vec3f (vx v) (vy v) 0) < 100 * 100) \<Longrightarrow>
     fst (snd (ground_probe env loc a position newPos v inertia)) = inertia"
  by (auto simp add: ground_probe_def Let_def)

lemma initial_velocity_walking:
  "initial_velocity env ref (a\<lparr>mWalkingOnWater := b\<rparr>) movement position swimlvl fl
     = initial_velocity env ref a movement position swimlvl fl"
  by (simp add: initial_velocity_def Let_def)

lemma pushed_off_walking:
  "pushed_off env ref (a\<lparr>mWalkingOnWater := b\<rparr>) movement time fl wl w
     = pushed_off env ref a movement time fl wl w"
  by (simp add: pushed_off_def probe_sweep_def loop_end_def solver_locals_def swim_level_def
      start_position_def initial_velocity_walking)

lemma move_collide_inertia:
  assumes "move_collide env ref a movement time fl wl sf w = (newpos, a')"
  shows "mInertialForce a' =
     (if mOnGround a' \<or>
         vz newpos + vz (mHalfExtents a)
           < wl + vz (mHalfExtents a) - vz (mHalfExtents a) * 2 * fSwimHeightScale env \<or> fl
      then Vec3f 0 0 0
      else if (vz (refPos ref) + vz (mHalfExtents a)
                 < wl + vz (mHalfExtents a) - vz (mHalfExtents a) * 2 * fSwimHeightScale env \<or>
               \<not> vz (rotateYaw env (refRot2 ref) movement) > 0) \<and>
              \<not> pushed_off env ref a movement time fl wl w
      then fall (mInertialForce a) time sf
      else mInertialForce a')"
proof -
  define hz where "hz = vz (mHalfExtents a)"
  define swimlvl where "swimlvl = wl + hz - hz * 2 * fSwimHeightScale env"
  define position where "position = Vec3f (vx (refPos ref)) (vy (refPos ref)) (vz (refPos ref) + hz)"
  obtain v0 inertia0 where iv: "initial_velocity env ref a movement position swimlvl fl = (v0, inertia0)"
    by (cases "initial_velocity env ref a movement position swimlvl fl")
  define loc where "loc = \<lparr>l_colobj = actorCollisionObject a, l_halfExtents = mHalfExtents a,
                 l_swimlevel = swimlvl, l_waterlevel = wl, l_isFlying = fl,
                 l_isPureWaterCreature = classIsPureWaterCreature ref,
                 l_origVelocity = storm_velocity env v0, l_dynamicsWorld = w\<rparr>"
  define st where "st = move_loop env loc 0
                 \<lparr>s_newPosition = position, s_velocity = storm_velocity env v0, s_remainingTime = time\<rparr>"
  obtain newPos inertia1 og where gp:
    "ground_probe env loc a position (s_newPosition st) (s_velocity st) inertia0 = (newPos, inertia1, og)"
    by (cases "ground_probe env loc a position (s_newPosition st) (s_velocity st) inertia0") auto
  have res: "move_collide env ref a movement time fl wl sf w =
      (Vec3f (vx newPos) (vy newPos) (vz newPos - hz),
       integrate_gravity a og newPos swimlvl fl inertia1 time sf)"
    unfolding move_collide_def Let_def
    using iv gp
    by (simp add: hz_def[symmetric] swimlvl_def[symmetric] position_def[symmetric]
        loc_def[symmetric] st_def[symmetric])
  with assms have np: "newpos = Vec3f (vx newPos) (vy newPos) (vz newPos - hz)"
    and a': "a' = integrate_gravity a og newPos swimlvl fl inertia1 time sf" by simp_all
  have z: "vz newpos + hz = vz newPos" by (simp add: np)
  have og: "mOnGround a' = og" by (simp add: a' integrate_gravity_ground)
  have stored: "mInertialForce a' =
      (if og \<or> vz newPos < swimlvl \<or> fl then Vec3f 0 0 0 else fall inertia1 time sf)"
    by (simp add: a' integrate_gravity_inertia)
  have sl: "swim_level env a wl = swimlvl" by (simp add: swim_level_def swimlvl_def hz_def)
  have sp: "start_position ref a = position" by (simp add: start_position_def position_def hz_def)
  have lc: "solver_locals env ref a movement fl wl w = loc"
    by (simp add: solver_locals_def sl sp iv loc_def)
  have le: "loop_end env ref a movement time fl wl w = st"
    by (simp add: loop_end_def Let_def lc sp st_def) (simp add: loc_def)
  have kept: "inertia1 = mInertialForce a"
    if nj: "vz (refPos ref) + hz < swimlvl \<or> \<not> vz (rotateYaw env (refRot2 ref) movement) > 0"
    and np: "\<not> pushed_off env ref a movement time fl wl w"
  proof -
    from nj have "vz position < swimlvl \<or> fl \<or> \<not> vz (rotateYaw env (refRot2 ref) movement) > 0"
      by (auto simp: position_def)
    from initial_velocity_inertia[OF this, of a] iv have i0: "inertia0 = mInertialForce a" by simp
    from np have "\<not> (\<not> (vz inertia0 > 0) \<and> \<not> (vz (s_newPosition st) < l_swimlevel loc) \<and>
      mFraction (doTrace env (l_colobj loc) (s_newPosition st)
          (s_newPosition st - (if mOnGround a then Vec3f 0 0 (sStepSizeDown + 2) else Vec3f 0 0 2))
          (l_dynamicsWorld loc)) < 1 \<and>
      collisionFilterGroup (mHitObject (doTrace env (l_colobj loc) (s_newPosition st)
          (s_newPosition st - (if mOnGround a then Vec3f 0 0 (sStepSizeDown + 2) else Vec3f 0 0 2))
          (l_dynamicsWorld loc))) = CollisionType_Actor \<and>
      length2 (Vec3f (vx (s_velocity st)) (vy (s_velocity st)) 0) < 100 * 100)"
      unfolding pushed_off_def probe_sweep_def Let_def le sl sp iv
      by (simp add: loc_def)
    from ground_probe_kept[OF this, of position] gp
    have "inertia1 = inertia0" by simp
    with i0 show ?thesis by simp
  qed
  show ?thesis
    unfolding hz_def[symmetric] swimlvl_def[symmetric] z og stored
    using kept by auto
qed

lemma move_collide_zero:
  assumes "move_collide env ref a movement time fl wl sf w = (newpos, a')"
    and "mOnGround a' \<or>
         vz newpos + vz (mHalfExtents a)
           < wl + vz (mHalfExtents a) - vz (mHalfExtents a) * 2 * fSwimHeightScale env \<or> fl"
  shows "mInertialForce a' = Vec3f 0 0 0"
  using move_collide_inertia[OF assms(1)] assms(2) by simp

lemma move_collide_fall:
  assumes "move_collide env ref a movement time fl wl sf w = (newpos, a')"
    and "\<not> (mOnGround a' \<or>
         vz newpos + vz (mHalfExtents a)
           < wl + vz (mHalfExtents a) - vz (mHalfExtents a) * 2 * fSwimHeightScale env \<or> fl)"
    and "vz (refPos ref) + vz (mHalfExtents a)
           < wl + vz (mHalfExtents a) - vz (mHalfExtents a) * 2 * fSwimHeightScale env \<or>
         \<not> vz (rotateYaw env (refRot2 ref) movement) > 0"
    and "\<not> pushed_off env ref a movement time fl wl w"
  shows "mInertialForce a' = fall (mInertialForce a) time sf"
  using move_collide_inertia[OF assms(1)] assms(2,3,4) by simp

text \<open>
  C3, as amended.  After a call to \<open>move\<close> for a mobile actor with collision mode on:
  when \<open>isOnGround\<close>, or the internal position lies below the swim level, or the actor
  flies, at the end of the call, the stored inertial force is the zero vector.  Otherwise,
  provided the call did not replace its local inertia (the actor started below the swim
  level or its yaw-rotated movement did not point up, and the ground probe of the call
  did not push the actor off a collider of the Actor group), the stored inertial force
  is the incoming one with \<open>627.2 * time\<close> taken off its z component and that component,
  when it has become negative, multiplied by the slow-fall factor.  (The stored flag
  \<open>mOnGround\<close> is \<open>isOnGround\<close>, and the returned feet position plus the half height is
  the internal position.)
\<close>

theorem move_inertial_force:
  assumes "classIsMobile (game ptr)" and "mCollisionMode physicActor"
    and "move env game ptr physicActor movement time isFlying_ptr waterlvl slowFall dynWorld
           = (newpos, game', actor')"
    and "hz = vz (mHalfExtents physicActor)"
    and "swimlvl = waterlvl + hz - hz * 2 * fSwimHeightScale env"
  shows "(mOnGround actor' \<or> vz newpos + hz < swimlvl \<or> isFlying_ptr \<longrightarrow>
            mInertialForce actor' = Vec3f 0 0 0) \<and>
         (\<not> (mOnGround actor' \<or> vz newpos + hz < swimlvl \<or> isFlying_ptr) \<and>
          (vz (refPos (game ptr)) + hz < swimlvl \<or>
           \<not> vz (rotateYaw env (refRot2 (game ptr)) movement) > 0) \<and>
          \<not> pushed_off env (game ptr) physicActor movement time isFlying_ptr waterlvl dynWorld
          \<longrightarrow>
            mInertialForce actor' =
              Vec3f (vx (mInertialForce physicActor)) (vy (mInertialForce physicActor))
                (if vz (mInertialForce physicActor) - 627.2 * time < 0
                 then (vz (mInertialForce physicActor) - 627.2 * time) * slowFall
                 else vz (mInertialForce physicActor) - 627.2 * time))"
proof -
  let ?a = "physicActor\<lparr>mWalkingOnWater := False\<rparr>"
  have same: "mHalfExtents ?a = mHalfExtents physicActor"
    "mInertialForce ?a = mInertialForce physicActor"
    by simp_all
  from assms(1,2,3) have mc: "move_collide env (game ptr) ?a movement time isFlying_ptr waterlvl
      slowFall dynWorld = (newpos, actor')"
    by (simp add: move_def Let_def split: prod.splits)
  note zero = move_collide_zero[OF mc, unfolded same, folded assms(4), folded assms(5)]
  note falls = move_collide_fall[OF mc, unfolded same pushed_off_walking, folded assms(4),
      folded assms(5), unfolded fall_def]
  show ?thesis
  proof (intro conjI impI)
    assume "mOnGround actor' \<or> vz newpos + hz < swimlvl \<or> isFlying_ptr"
    then show "mInertialForce actor' = Vec3f 0 0 0" by (rule zero)
  next
    assume h: "\<not> (mOnGround actor' \<or> vz newpos + hz < swimlvl \<or> isFlying_ptr) \<and>
          (vz (refPos (game ptr)) + hz < swimlvl \<or>
           \<not> vz (rotateYaw env (refRot2 (game ptr)) movement) > 0) \<and>
          \<not> pushed_off env (game ptr) physicActor movement time isFlying_ptr waterlvl dynWorld"
    show "mInertialForce actor' =
              Vec3f (vx (mInertialForce physicActor)) (vy (mInertialForce physicActor))
                (if vz (mInertialForce physicActor) - 627.2 * time < 0
                 then (vz (mInertialForce physicActor) - 627.2 * time) * slowFall
                 else vz (mInertialForce physicActor) - 627.2 * time)"
      by (rule falls) (use h in blast)+
  qed
qed

lemma move_collide_steps:
  assumes "position = Vec3f (vx (refPos ref)) (vy (refPos ref))
                        (vz (refPos ref) + vz (mHalfExtents a))"
    and "swimlvl = wl + vz (mHalfExtents a) - vz (mHalfExtents a) * 2 * fSwimHeightScale env"
    and "initial_velocity env ref a movement position swimlvl fl = (v0, inertia0)"
    and "storm_velocity env v0 = v"
    and "loc = \<lparr>l_colobj = actorCollisionObject a, l_halfExtents = mHalfExtents a,
                 l_swimlevel = swimlvl, l_waterlevel = wl, l_isFlying = fl,
                 l_isPureWaterCreature = classIsPureWaterCreature ref,
                 l_origVelocity = v, l_dynamicsWorld = w\<rparr>"
    and "move_loop env loc 0 \<lparr>s_newPosition = position, s_velocity = v, s_remainingTime = time\<rparr>
           = st"
    and "ground_probe env loc a position (s_newPosition st) (s_velocity st) inertia0
           = (newPos, inertia1, og)"
  shows "move_collide env ref a movement time fl wl sf w =
           (Vec3f (vx newPos) (vy newPos) (vz newPos - vz (mHalfExtents a)),
            integrate_gravity a og newPos swimlvl fl inertia1 time sf)"
  unfolding move_collide_def Let_def
  unfolding assms(1)[symmetric] assms(2)[symmetric]
  unfolding assms(3) prod.case assms(4) assms(5)[symmetric] assms(6) assms(7)
  by simp

lemma free_fall_collide_in:
  assumes "fSwimHeightScale env = 0.9" and "\<not> isInStorm env"
    and "rotateYaw env 0 (Vec3f 0 0 0) = Vec3f 0 0 0"
    and "rotatePitchYaw env 0 0 (Vec3f 0 0 0) = Vec3f 0 0 0"
    and "\<And>c w. doTrace env c (Vec3f 0 0 164) (Vec3f 0 0 162) w = no_hit (Vec3f 0 0 162)"
  shows "move_collide env mobile_ref (falling_actor\<lparr>mWalkingOnWater := False\<rparr>) (Vec3f 0 0 0)
      (1 / 60) fl (- float_max) sf \<lparr>collisionObjects = []\<rparr>
   = (Vec3f 0 0 100,
      falling_actor\<lparr>mWalkingOnWater := False,
                     mInertialForce := (if fl then Vec3f 0 0 0
                                        else Vec3f 0 0 (- (627.2 / 60) * sf)),
                     mOnGround := False\<rparr>)"
proof -
  define a where "a = falling_actor\<lparr>mWalkingOnWater := False\<rparr>"
  define swimlvl where "swimlvl = - float_max - 51.2"
  define loc where "loc = \<lparr>l_colobj = actorCollisionObject a, l_halfExtents = mHalfExtents a,
                 l_swimlevel = swimlvl, l_waterlevel = - float_max, l_isFlying = fl,
                 l_isPureWaterCreature = classIsPureWaterCreature mobile_ref,
                 l_origVelocity = Vec3f 0 0 0, l_dynamicsWorld = \<lparr>collisionObjects = []\<rparr>\<rparr>"
  define st where "st = \<lparr>s_newPosition = Vec3f 0 0 164, s_velocity = Vec3f 0 0 0,
                 s_remainingTime = 1 / 60\<rparr>"
  have low: "swimlvl < 0" using float_max_pos by (simp add: swimlvl_def)
  have p: "Vec3f 0 0 164 = Vec3f (vx (refPos mobile_ref)) (vy (refPos mobile_ref))
                        (vz (refPos mobile_ref) + vz (mHalfExtents a))"
    by (simp add: mobile_ref_def a_def falling_actor_def)
  have s: "swimlvl = - float_max + vz (mHalfExtents a)
                - vz (mHalfExtents a) * 2 * fSwimHeightScale env"
    by (simp add: swimlvl_def a_def falling_actor_def assms(1))
  have iv: "initial_velocity env mobile_ref a (Vec3f 0 0 0) (Vec3f 0 0 164) swimlvl fl
      = (Vec3f 0 0 0, Vec3f 0 0 0)"
    using low
    by (cases fl)
       (simp_all add: initial_velocity_def assms(3,4) mobile_ref_def a_def falling_actor_def
          plus_Vec3f_def Let_def)
  have sv: "storm_velocity env (Vec3f 0 0 0) = Vec3f 0 0 0"
    by (simp add: storm_velocity_def assms(2))
  have lp: "move_loop env loc 0 st = st"
  proof (rule move_loop_break)
    show "0 < sMaxIterations" by (simp add: sMaxIterations_def)
    show "loop_body env loc st = Break st"
      using low
      by (simp add: loop_body_def loc_def st_def plus_Vec3f_def minus_Vec3f_def scale_def
          length2_def Let_def)
  qed (simp add: st_def)
  have lp': "move_loop env loc 0
      \<lparr>s_newPosition = Vec3f 0 0 164, s_velocity = Vec3f 0 0 0, s_remainingTime = 1 / 60\<rparr> = st"
    using lp by (simp add: st_def)
  have gp: "ground_probe env loc a (Vec3f 0 0 164) (s_newPosition st) (s_velocity st)
      (Vec3f 0 0 0) = (Vec3f 0 0 164, Vec3f 0 0 0, False)"
    using low
    by (simp add: ground_probe_def loc_def st_def a_def falling_actor_def minus_Vec3f_def
        assms(5) no_hit_def Let_def)
  have ig: "integrate_gravity a False (Vec3f 0 0 164) swimlvl fl (Vec3f 0 0 0) (1 / 60) sf
      = falling_actor\<lparr>mWalkingOnWater := False,
                     mInertialForce := (if fl then Vec3f 0 0 0
                                        else Vec3f 0 0 (- (627.2 / 60) * sf)),
                     mOnGround := False\<rparr>"
    using low
    by (simp add: integrate_gravity_def a_def Let_def)
  have hz: "vz (mHalfExtents a) = 64" by (simp add: a_def falling_actor_def)
  have "move_collide env mobile_ref a (Vec3f 0 0 0) (1 / 60) fl (- float_max) sf
      \<lparr>collisionObjects = []\<rparr>
    = (Vec3f 0 0 100, integrate_gravity a False (Vec3f 0 0 164) swimlvl fl (Vec3f 0 0 0)
         (1 / 60) sf)"
    using move_collide_steps[OF p s iv sv loc_def lp' gp, of sf] by (simp add: hz)
  then show ?thesis
    unfolding ig unfolding a_def .
qed

lemma free_fall_collide:
  "move_collide open_space mobile_ref (falling_actor\<lparr>mWalkingOnWater := False\<rparr>) (Vec3f 0 0 0)
      (1 / 60) fl (- float_max) sf \<lparr>collisionObjects = []\<rparr>
   = (Vec3f 0 0 100,
      falling_actor\<lparr>mWalkingOnWater := False,
                     mInertialForce := (if fl then Vec3f 0 0 0
                                        else Vec3f 0 0 (- (627.2 / 60) * sf)),
                     mOnGround := False\<rparr>)"
  by (rule free_fall_collide_in) (simp_all add: open_space_def)

lemma beside_fall_collide:
  "move_collide actor_beside mobile_ref (falling_actor\<lparr>mWalkingOnWater := False\<rparr>) (Vec3f 0 0 0)
      (1 / 60) fl (- float_max) sf \<lparr>collisionObjects = []\<rparr>
   = (Vec3f 0 0 100,
      falling_actor\<lparr>mWalkingOnWater := False,
                     mInertialForce := (if fl then Vec3f 0 0 0
                                        else Vec3f 0 0 (- (627.2 / 60) * sf)),
                     mOnGround := False\<rparr>)"
  by (rule free_fall_collide_in) (simp_all add: actor_beside_def open_space_def)

lemma jump_collide:
  "move_collide open_space mobile_ref (standing_actor\<lparr>mWalkingOnWater := False\<rparr>)
      (Vec3f 0 0 480) (1 / 60) False (- float_max) 1 \<lparr>collisionObjects = []\<rparr>
   = (Vec3f 0 0 108,
      standing_actor\<lparr>mWalkingOnWater := False,
                      mInertialForce := Vec3f 0 0 (480 - 627.2 / 60), mOnGround := False\<rparr>)"
proof -
  define a where "a = standing_actor\<lparr>mWalkingOnWater := False\<rparr>"
  define swimlvl where "swimlvl = - float_max - 51.2"
  define loc where "loc = \<lparr>l_colobj = actorCollisionObject a, l_halfExtents = mHalfExtents a,
                 l_swimlevel = swimlvl, l_waterlevel = - float_max, l_isFlying = False,
                 l_isPureWaterCreature = classIsPureWaterCreature mobile_ref,
                 l_origVelocity = Vec3f 0 0 480, l_dynamicsWorld = \<lparr>collisionObjects = []\<rparr>\<rparr>"
  define st where "st = \<lparr>s_newPosition = Vec3f 0 0 172, s_velocity = Vec3f 0 0 480,
                 s_remainingTime = 1 / 60\<rparr>"
  have low: "swimlvl < 0" using float_max_pos by (simp add: swimlvl_def)
  have p: "Vec3f 0 0 164 = Vec3f (vx (refPos mobile_ref)) (vy (refPos mobile_ref))
                        (vz (refPos mobile_ref) + vz (mHalfExtents a))"
    by (simp add: mobile_ref_def a_def standing_actor_def falling_actor_def)
  have s: "swimlvl = - float_max + vz (mHalfExtents a)
                - vz (mHalfExtents a) * 2 * fSwimHeightScale open_space"
    by (simp add: swimlvl_def a_def standing_actor_def falling_actor_def open_space_def)
  have iv: "initial_velocity open_space mobile_ref a (Vec3f 0 0 480) (Vec3f 0 0 164) swimlvl False
      = (Vec3f 0 0 480, Vec3f 0 0 480)"
    using low
    by (simp add: initial_velocity_def open_space_def a_def standing_actor_def falling_actor_def
        Let_def)
  have sv: "storm_velocity open_space (Vec3f 0 0 480) = Vec3f 0 0 480"
    by (simp add: storm_velocity_def open_space_def)
  have lp: "move_loop open_space loc 0
      \<lparr>s_newPosition = Vec3f 0 0 164, s_velocity = Vec3f 0 0 480, s_remainingTime = 1 / 60\<rparr> = st"
  proof (rule move_loop_break)
    show "0 < sMaxIterations" by (simp add: sMaxIterations_def)
    show "loop_body open_space loc
        \<lparr>s_newPosition = Vec3f 0 0 164, s_velocity = Vec3f 0 0 480, s_remainingTime = 1 / 60\<rparr>
      = Break st"
      using low
      by (simp add: loop_body_def loc_def st_def open_space_def no_hit_def plus_Vec3f_def
          minus_Vec3f_def scale_def length2_def Let_def)
  qed simp
  have gp: "ground_probe open_space loc a (Vec3f 0 0 164) (s_newPosition st) (s_velocity st)
      (Vec3f 0 0 480) = (Vec3f 0 0 172, Vec3f 0 0 480, False)"
    by (simp add: ground_probe_def st_def)
  have ig: "integrate_gravity a False (Vec3f 0 0 172) swimlvl False (Vec3f 0 0 480) (1 / 60) 1
      = standing_actor\<lparr>mWalkingOnWater := False,
                     mInertialForce := Vec3f 0 0 (480 - 627.2 / 60), mOnGround := False\<rparr>"
    using low
    by (simp add: integrate_gravity_def a_def Let_def)
  have hz: "vz (mHalfExtents a) = 64" by (simp add: a_def standing_actor_def falling_actor_def)
  have "move_collide open_space mobile_ref a (Vec3f 0 0 480) (1 / 60) False (- float_max) 1
      \<lparr>collisionObjects = []\<rparr>
    = (Vec3f 0 0 108, integrate_gravity a False (Vec3f 0 0 172) swimlvl False (Vec3f 0 0 480)
         (1 / 60) 1)"
    using move_collide_steps[OF p s iv sv loc_def lp gp, of 1] by (simp add: hz)
  then show ?thesis
    unfolding ig unfolding a_def .
qed

lemma move_mobile_ref:
  "move_collide env mobile_ref (a\<lparr>mWalkingOnWater := False\<rparr>) movement time fl wl sf w
     = (newpos, a') \<Longrightarrow> mCollisionMode a \<Longrightarrow>
   move env (\<lambda>p. mobile_ref) 0 a movement time fl wl sf w
     = (newpos, (\<lambda>p. mobile_ref)(0 := mobile_ref\<lparr>movementSettingsZ := 0\<rparr>), a')"
  by (simp add: move_def mobile_ref_def Let_def)

lemma free_fall_move:
  "move open_space (\<lambda>p. mobile_ref) 0 falling_actor (Vec3f 0 0 0) (1 / 60) fl (- float_max) sf
      \<lparr>collisionObjects = []\<rparr>
   = (Vec3f 0 0 100, (\<lambda>p. mobile_ref)(0 := mobile_ref\<lparr>movementSettingsZ := 0\<rparr>),
      falling_actor\<lparr>mWalkingOnWater := False,
                     mInertialForce := (if fl then Vec3f 0 0 0
                                        else Vec3f 0 0 (- (627.2 / 60) * sf)),
                     mOnGround := False\<rparr>)"
  by (rule move_mobile_ref[OF free_fall_collide]) (simp add: falling_actor_def)

lemma jump_move:
  "move open_space (\<lambda>p. mobile_ref) 0 standing_actor (Vec3f 0 0 480) (1 / 60) False (- float_max) 1
      \<lparr>collisionObjects = []\<rparr>
   = (Vec3f 0 0 108, (\<lambda>p. mobile_ref)(0 := mobile_ref\<lparr>movementSettingsZ := 0\<rparr>),
      standing_actor\<lparr>mWalkingOnWater := False,
                      mInertialForce := Vec3f 0 0 (480 - 627.2 / 60), mOnGround := False\<rparr>)"
  by (rule move_mobile_ref[OF jump_collide]) (simp add: standing_actor_def falling_actor_def)

lemma static_move:
  "move open_space (\<lambda>p. static_ref) 0 falling_actor (Vec3f 0 0 0) (1 / 60) False (- float_max) 1
      \<lparr>collisionObjects = []\<rparr> = (Vec3f 0 0 100, \<lambda>p. static_ref, falling_actor)"
  by (simp add: move_def static_ref_def mobile_ref_def Let_def)

lemma pushed_collide:
  "move_collide (floor_below CollisionType_Actor) mobile_ref
      (drifting_actor\<lparr>mWalkingOnWater := False\<rparr>)
      (Vec3f 0 0 0) (1 / 60) False (- float_max) 1 \<lparr>collisionObjects = []\<rparr>
   = (Vec3f (1 / 10) 0 100,
      drifting_actor\<lparr>mWalkingOnWater := False,
                      mInertialForce := Vec3f 0 0 (- (627.2 / 60)), mOnGround := False\<rparr>)"
proof -
  define env where "env = floor_below CollisionType_Actor"
  define a where "a = drifting_actor\<lparr>mWalkingOnWater := False\<rparr>"
  define swimlvl where "swimlvl = - float_max - 51.2"
  define loc where "loc = \<lparr>l_colobj = actorCollisionObject a, l_halfExtents = mHalfExtents a,
                 l_swimlevel = swimlvl, l_waterlevel = - float_max, l_isFlying = False,
                 l_isPureWaterCreature = classIsPureWaterCreature mobile_ref,
                 l_origVelocity = Vec3f 6 0 0, l_dynamicsWorld = \<lparr>collisionObjects = []\<rparr>\<rparr>"
  define st where "st = \<lparr>s_newPosition = Vec3f (1 / 10) 0 164, s_velocity = Vec3f 6 0 0,
                 s_remainingTime = 1 / 60\<rparr>"
  have low: "swimlvl < 0" using float_max_pos by (simp add: swimlvl_def)
  have p: "Vec3f 0 0 164 = Vec3f (vx (refPos mobile_ref)) (vy (refPos mobile_ref))
                        (vz (refPos mobile_ref) + vz (mHalfExtents a))"
    by (simp add: mobile_ref_def a_def drifting_actor_def falling_actor_def)
  have s: "swimlvl = - float_max + vz (mHalfExtents a)
                - vz (mHalfExtents a) * 2 * fSwimHeightScale env"
    by (simp add: swimlvl_def a_def drifting_actor_def falling_actor_def env_def floor_below_def
        open_space_def)
  have iv: "initial_velocity env mobile_ref a (Vec3f 0 0 0) (Vec3f 0 0 164) swimlvl False
      = (Vec3f 6 0 0, Vec3f 6 0 0)"
    using low
    by (simp add: initial_velocity_def env_def floor_below_def open_space_def a_def
        drifting_actor_def falling_actor_def plus_Vec3f_def Let_def)
  have sv: "storm_velocity env (Vec3f 6 0 0) = Vec3f 6 0 0"
    by (simp add: storm_velocity_def env_def floor_below_def open_space_def)
  have lp: "move_loop env loc 0
      \<lparr>s_newPosition = Vec3f 0 0 164, s_velocity = Vec3f 6 0 0, s_remainingTime = 1 / 60\<rparr> = st"
  proof (rule move_loop_break)
    show "0 < sMaxIterations" by (simp add: sMaxIterations_def)
    show "loop_body env loc
        \<lparr>s_newPosition = Vec3f 0 0 164, s_velocity = Vec3f 6 0 0, s_remainingTime = 1 / 60\<rparr>
      = Break st"
      using low
      by (simp add: loop_body_def loc_def st_def env_def floor_below_def open_space_def
          no_hit_def plus_Vec3f_def minus_Vec3f_def scale_def length2_def Let_def)
  qed simp
  have n0: "normalize (Vec3f 0 0 0) = (0, Vec3f 0 0 0)"
    by (simp add: normalize_def length_vec_def length2_def)
  have gp: "ground_probe env loc a (Vec3f 0 0 164) (s_newPosition st) (s_velocity st)
      (Vec3f 6 0 0) = (Vec3f (1 / 10) 0 164, Vec3f 0 0 0, False)"
    using low
    by (simp add: ground_probe_def loc_def st_def env_def floor_below_def open_space_def
        hit_halfway_def new_btCollisionObject_def a_def drifting_actor_def falling_actor_def
        minus_Vec3f_def plus_Vec3f_def divide_vec_def length2_def n0 scale_def Let_def)
  have ig: "integrate_gravity a False (Vec3f (1 / 10) 0 164) swimlvl False (Vec3f 0 0 0) (1 / 60) 1
      = drifting_actor\<lparr>mWalkingOnWater := False,
                     mInertialForce := Vec3f 0 0 (- (627.2 / 60)), mOnGround := False\<rparr>"
    using low
    by (simp add: integrate_gravity_def a_def Let_def)
  have hz: "vz (mHalfExtents a) = 64" by (simp add: a_def drifting_actor_def falling_actor_def)
  have "move_collide env mobile_ref a (Vec3f 0 0 0) (1 / 60) False (- float_max) 1
      \<lparr>collisionObjects = []\<rparr>
    = (Vec3f (1 / 10) 0 100, integrate_gravity a False (Vec3f (1 / 10) 0 164) swimlvl False
         (Vec3f 0 0 0) (1 / 60) 1)"
    using move_collide_steps[OF p s iv sv loc_def lp gp, of 1] by (simp add: hz)
  then show ?thesis
    unfolding ig unfolding a_def env_def .
qed

lemma pushed_move:
  "move (floor_below CollisionType_Actor) (\<lambda>p. mobile_ref) 0 drifting_actor (Vec3f 0 0 0)
      (1 / 60) False (- float_max) 1 \<lparr>collisionObjects = []\<rparr>
   = (Vec3f (1 / 10) 0 100, (\<lambda>p. mobile_ref)(0 := mobile_ref\<lparr>movementSettingsZ := 0\<rparr>),
      drifting_actor\<lparr>mWalkingOnWater := False,
                      mInertialForce := Vec3f 0 0 (- (627.2 / 60)), mOnGround := False\<rparr>)"
  using pushed_collide
  by (simp add: move_def mobile_ref_def drifting_actor_def falling_actor_def Let_def)

lemma beside_fall_move:
  "move actor_beside (\<lambda>p. mobile_ref) 0 falling_actor (Vec3f 0 0 0) (1 / 60) fl (- float_max) sf
      \<lparr>collisionObjects = []\<rparr>
   = (Vec3f 0 0 100, (\<lambda>p. mobile_ref)(0 := mobile_ref\<lparr>movementSettingsZ := 0\<rparr>),
      falling_actor\<lparr>mWalkingOnWater := False,
                     mInertialForce := (if fl then Vec3f 0 0 0
                                        else Vec3f 0 0 (- (627.2 / 60) * sf)),
                     mOnGround := False\<rparr>)"
  by (rule move_mobile_ref[OF beside_fall_collide]) (simp add: falling_actor_def)

lemma beside_probe_free:
  "mFraction (probe_sweep actor_beside ref falling_actor movement time fl wl w) = 1"
  by (simp add: probe_sweep_def actor_beside_def open_space_def no_hit_def minus_Vec3f_def
      falling_actor_def Let_def)

theorem move_inertial_force_witness:
  "classIsMobile ((\<lambda>p. mobile_ref) 0) \<and> mCollisionMode falling_actor \<and>
   mInertialForce (snd (snd (move actor_beside (\<lambda>p. mobile_ref) 0 falling_actor (Vec3f 0 0 0)
      (1 / 60) True (- float_max) 1 \<lparr>collisionObjects = []\<rparr>))) = Vec3f 0 0 0 \<and>
   collisionFilterGroup (mHitObject (doTrace actor_beside (actorCollisionObject falling_actor)
      (Vec3f 0 0 164) (Vec3f 1 0 164) \<lparr>collisionObjects = []\<rparr>)) = CollisionType_Actor \<and>
   \<not> pushed_off actor_beside ((\<lambda>p. mobile_ref) 0) falling_actor (Vec3f 0 0 0) (1 / 60) False
        (- float_max) \<lparr>collisionObjects = []\<rparr> \<and>
   \<not> mOnGround (snd (snd (move actor_beside (\<lambda>p. mobile_ref) 0 falling_actor (Vec3f 0 0 0)
      (1 / 60) False (- float_max) 1 \<lparr>collisionObjects = []\<rparr>))) \<and>
   mInertialForce (snd (snd (move actor_beside (\<lambda>p. mobile_ref) 0 falling_actor (Vec3f 0 0 0)
      (1 / 60) False (- float_max) 1 \<lparr>collisionObjects = []\<rparr>)))
     = Vec3f 0 0 (- (627.2 / 60))"
proof -
  have mob: "classIsMobile ((\<lambda>p. mobile_ref) 0)" by (simp add: mobile_ref_def)
  have cm: "mCollisionMode falling_actor" by (simp add: falling_actor_def)
  note fly = move_inertial_force[OF mob cm beside_fall_move[of True 1] refl refl]
  note drop = move_inertial_force[OF mob cm beside_fall_move[of False 1] refl refl]
  have beside: "collisionFilterGroup (mHitObject (doTrace actor_beside
      (actorCollisionObject falling_actor) (Vec3f 0 0 164) (Vec3f 1 0 164)
      \<lparr>collisionObjects = []\<rparr>)) = CollisionType_Actor"
    by (simp add: actor_beside_def open_space_def hit_halfway_def)
  have quiet: "\<not> pushed_off actor_beside ((\<lambda>p. mobile_ref) 0) falling_actor (Vec3f 0 0 0)
      (1 / 60) False (- float_max) \<lparr>collisionObjects = []\<rparr>"
    by (simp add: pushed_off_def beside_probe_free Let_def)
  have still: "\<not> vz (rotateYaw actor_beside (refRot2 ((\<lambda>p. mobile_ref) 0)) (Vec3f 0 0 0)) > 0"
    by (simp add: actor_beside_def open_space_def)
  have air: "\<not> (mOnGround (falling_actor\<lparr>mWalkingOnWater := False,
                     mInertialForce := (if False then Vec3f 0 0 0
                                        else Vec3f 0 0 (- (627.2 / 60) * 1)),
                     mOnGround := False\<rparr>) \<or>
      vz (Vec3f 0 0 100) + vz (mHalfExtents falling_actor)
        < - float_max + vz (mHalfExtents falling_actor)
            - vz (mHalfExtents falling_actor) * 2 * fSwimHeightScale actor_beside \<or> False)"
    using float_max_pos by (simp add: falling_actor_def actor_beside_def open_space_def)
  from fly have a: "mInertialForce (snd (snd (move actor_beside (\<lambda>p. mobile_ref) 0 falling_actor
      (Vec3f 0 0 0) (1 / 60) True (- float_max) 1 \<lparr>collisionObjects = []\<rparr>))) = Vec3f 0 0 0"
    unfolding beside_fall_move by simp
  from drop air still quiet
  have "mInertialForce (falling_actor\<lparr>mWalkingOnWater := False,
                     mInertialForce := (if False then Vec3f 0 0 0
                                        else Vec3f 0 0 (- (627.2 / 60) * 1)),
                     mOnGround := False\<rparr>)
      = Vec3f (vx (mInertialForce falling_actor)) (vy (mInertialForce falling_actor))
                (if vz (mInertialForce falling_actor) - 627.2 * (1 / 60) < 0
                 then (vz (mInertialForce falling_actor) - 627.2 * (1 / 60)) * 1
                 else vz (mInertialForce falling_actor) - 627.2 * (1 / 60))"
    by blast
  then have b: "mInertialForce (snd (snd (move actor_beside (\<lambda>p. mobile_ref) 0 falling_actor
      (Vec3f 0 0 0) (1 / 60) False (- float_max) 1 \<lparr>collisionObjects = []\<rparr>)))
     = Vec3f 0 0 (- (627.2 / 60))"
    unfolding beside_fall_move by (simp add: falling_actor_def)
  have c: "\<not> mOnGround (snd (snd (move actor_beside (\<lambda>p. mobile_ref) 0 falling_actor (Vec3f 0 0 0)
      (1 / 60) False (- float_max) 1 \<lparr>collisionObjects = []\<rparr>)))"
    unfolding beside_fall_move by simp
  from mob cm a beside quiet b c show ?thesis by blast
qed

text \<open>
  C3 as it was stated fails in both directions.  An actor in free fall whose slow-fall
  factor is 0 is left with the zero vector although it is neither on the ground, nor
  below the swim level, nor flying.  An actor that jumps from the ground with velocity
  \<open>(0, 0, 480)\<close> is left with \<open>(0, 0, 480 - 627.2 / 60)\<close>: gravity applied to the jump
  velocity, not to its incoming inertia \<open>(0, 0, 0)\<close>.  An airborne actor with inertia
  \<open>(6, 0, 0)\<close> whose ground probe hits another actor right below it is left with
  \<open>(0, 0, - 627.2 / 60)\<close>: the push-off has replaced the sideways inertia.  And a
  creature that is not mobile keeps its inertial force, here the zero vector, while
  it is off the ground.
\<close>

theorem move_inertial_force_counterexample:
  "mInertialForce (snd (snd (move open_space (\<lambda>p. mobile_ref) 0 falling_actor (Vec3f 0 0 0)
      (1 / 60) False (- float_max) 0 \<lparr>collisionObjects = []\<rparr>))) = Vec3f 0 0 0 \<and>
   \<not> mOnGround (snd (snd (move open_space (\<lambda>p. mobile_ref) 0 falling_actor (Vec3f 0 0 0)
      (1 / 60) False (- float_max) 0 \<lparr>collisionObjects = []\<rparr>))) \<and>
   \<not> vz (fst (move open_space (\<lambda>p. mobile_ref) 0 falling_actor (Vec3f 0 0 0)
      (1 / 60) False (- float_max) 0 \<lparr>collisionObjects = []\<rparr>)) + vz (mHalfExtents falling_actor)
     < - float_max + vz (mHalfExtents falling_actor)
         - vz (mHalfExtents falling_actor) * 2 * fSwimHeightScale open_space \<and>
   mInertialForce standing_actor = Vec3f 0 0 0 \<and>
   \<not> mOnGround (snd (snd (move open_space (\<lambda>p. mobile_ref) 0 standing_actor (Vec3f 0 0 480)
      (1 / 60) False (- float_max) 1 \<lparr>collisionObjects = []\<rparr>))) \<and>
   \<not> vz (fst (move open_space (\<lambda>p. mobile_ref) 0 standing_actor (Vec3f 0 0 480)
      (1 / 60) False (- float_max) 1 \<lparr>collisionObjects = []\<rparr>)) + vz (mHalfExtents standing_actor)
     < - float_max + vz (mHalfExtents standing_actor)
         - vz (mHalfExtents standing_actor) * 2 * fSwimHeightScale open_space \<and>
   mInertialForce (snd (snd (move open_space (\<lambda>p. mobile_ref) 0 standing_actor (Vec3f 0 0 480)
      (1 / 60) False (- float_max) 1 \<lparr>collisionObjects = []\<rparr>)))
     = Vec3f 0 0 (480 - 627.2 / 60) \<and>
   480 - 627.2 / 60 \<noteq> (0 - 627.2 * (1 / 60) :: real) \<and>
   mInertialForce drifting_actor = Vec3f 6 0 0 \<and>
   mInertialForce (snd (snd (move (floor_below CollisionType_Actor) (\<lambda>p. mobile_ref) 0
      drifting_actor (Vec3f 0 0 0) (1 / 60) False (- float_max) 1 \<lparr>collisionObjects = []\<rparr>)))
     = Vec3f 0 0 (- (627.2 / 60)) \<and>
   \<not> mOnGround (snd (snd (move (floor_below CollisionType_Actor) (\<lambda>p. mobile_ref) 0
      drifting_actor (Vec3f 0 0 0) (1 / 60) False (- float_max) 1 \<lparr>collisionObjects = []\<rparr>))) \<and>
   mCollisionMode falling_actor \<and>
   \<not> mOnGround (snd (snd (move open_space (\<lambda>p. static_ref) 0 falling_actor (Vec3f 0 0 0)
      (1 / 60) False (- float_max) 1 \<lparr>collisionObjects = []\<rparr>))) \<and>
   mInertialForce (snd (snd (move open_space (\<lambda>p. static_ref) 0 falling_actor (Vec3f 0 0 0)
      (1 / 60) False (- float_max) 1 \<lparr>collisionObjects = []\<rparr>))) = Vec3f 0 0 0"
  unfolding free_fall_move jump_move pushed_move static_move
  using float_max_pos
  by (simp add: standing_actor_def drifting_actor_def falling_actor_def open_space_def)

subsection \<open>Calls below the tick\<close>

text \<open>
  C1, as amended.  A call of \<open>applyQueuedMovement\<close> whose accumulated time, \<open>dt\<close>
  included, stays below 1/60 s returns an empty result list, moves no actor, keeps the
  accumulated time, and empties the pending movement queue: every call clears the queue,
  not only a drain.  The movements queued before such a call are therefore lost; the
  next call, whatever its \<open>dt\<close>, returns no result unless movements are queued anew.
\<close>

theorem applyQueuedMovement_below_threshold:
  assumes "mTimeAccum s + dt < 1 / 60"
  shows "applyQueuedMovement env game s dt =
           ([], game, s\<lparr>mMovementResults := [], mTimeAccum := mTimeAccum s + dt,
                        mMovementQueue := []\<rparr>) \<and>
         fst (applyQueuedMovement env game' (snd (snd (applyQueuedMovement env game s dt))) dt')
           = []"
proof -
  have first: "applyQueuedMovement env game s dt =
           ([], game, s\<lparr>mMovementResults := [], mTimeAccum := mTimeAccum s + dt,
                        mMovementQueue := []\<rparr>)"
    using assms by (simp add: applyQueuedMovement_def Let_def)
  have "fst (applyQueuedMovement env game' s' dt') = []" if "mMovementQueue s' = []" for s'
    using that by (simp add: applyQueuedMovement_def Let_def)
  then have "fst (applyQueuedMovement env game'
      (s\<lparr>mMovementResults := [], mTimeAccum := mTimeAccum s + dt, mMovementQueue := []\<rparr>) dt') = []"
    by simp
  with first show ?thesis by simp
qed

theorem applyQueuedMovement_below_threshold_witness:
  "mTimeAccum one_actor_system + 1 / 100 < 1 / 60 \<and>
   applyQueuedMovement open_space (\<lambda>p. mobile_ref) one_actor_system (1 / 100) =
     ([], \<lambda>p. mobile_ref,
      one_actor_system\<lparr>mMovementResults := [], mTimeAccum := 1 / 100, mMovementQueue := []\<rparr>)"
proof -
  have small: "mTimeAccum one_actor_system + 1 / 100 < 1 / 60"
    by (simp add: one_actor_system_def)
  have acc: "mTimeAccum one_actor_system + 1 / 100 = 1 / 100"
    by (simp add: one_actor_system_def)
  from applyQueuedMovement_below_threshold[OF small, of open_space "\<lambda>p. mobile_ref"] small
  show ?thesis unfolding acc by blast
qed

text \<open>
  C1 as it was stated keeps the queue.  With one movement queued, a call with
  \<open>dt = 1/100\<close> leaves the queue empty, and the call with \<open>dt = 1/60\<close> that follows,
  which is above the threshold, returns nothing; the same queue drained at once yields a
  result for the actor.
\<close>

theorem applyQueuedMovement_drops_queue_counterexample:
  "mTimeAccum one_actor_system + 1 / 100 < 1 / 60 \<and>
   mMovementQueue one_actor_system = [(0, Vec3f 0 60 0)] \<and>
   mMovementQueue (snd (snd (applyQueuedMovement open_space (\<lambda>p. mobile_ref)
      one_actor_system (1 / 100)))) = [] \<and>
   mTimeAccum (snd (snd (applyQueuedMovement open_space (\<lambda>p. mobile_ref)
      one_actor_system (1 / 100)))) + 1 / 60 \<ge> 1 / 60 \<and>
   fst (applyQueuedMovement open_space (\<lambda>p. mobile_ref)
      (snd (snd (applyQueuedMovement open_space (\<lambda>p. mobile_ref) one_actor_system (1 / 100))))
      (1 / 60)) = [] \<and>
   map fst (fst (applyQueuedMovement open_space (\<lambda>p. mobile_ref) one_actor_system (1 / 60)))
     = [0]"
proof -
  have after: "snd (snd (applyQueuedMovement open_space (\<lambda>p. mobile_ref)
      one_actor_system (1 / 100)))
    = one_actor_system\<lparr>mMovementResults := [], mTimeAccum := 1 / 100, mMovementQueue := []\<rparr>"
    by (simp add: applyQueuedMovement_def one_actor_system_def Let_def)
  have direct: "map fst (fst (applyQueuedMovement open_space (\<lambda>p. mobile_ref) one_actor_system
      (1 / 60))) = [0]"
    by (simp add: applyQueuedMovement_def drain_entry_def one_actor_system_def Let_def
        split_def)
  show ?thesis
    unfolding after
    using direct
    by (simp add: applyQueuedMovement_def one_actor_system_def Let_def)
qed

end
